theory Spec2Isabelle
  imports Complex_Main "HOL-Library.AList"
begin

section \<open>flowPy: serial flow network, pressure drop\<close>

text \<open>
  A shallow embedding of \<^verbatim>\<open>flowpy/flow_network_components.py\<close>,
  \<^verbatim>\<open>flowpy/pdrop_funcs.py\<close>, \<^verbatim>\<open>flowpy/loss_utils.py\<close> and
  \<^verbatim>\<open>flowpy/network_builder.py\<close>.

  Conventions of the model.
  \<^item> A Python \<^verbatim>\<open>float\<close> (and a YAML integer used as a number) is a \<^typ>\<open>real\<close>:
    rounding, infinities and NaN are not modelled, nor the \<^verbatim>\<open>OverflowError\<close> of \<^verbatim>\<open>**\<close>
    on a result beyond the range of a double, nor the underflow of a product to zero.
    Division is modelled with its \<^verbatim>\<open>ZeroDivisionError\<close>. A model without these can
    return, or raise a later error, where the program raises on very large or very small
    numbers: a clause below saying that a construction succeeds is about numbers that
    stay in range, and the clauses about the error that is raised carry the bounds
    (\<open>double_range\<close>, \<open>pipe_in_range\<close>) under which the two agree.
  \<^item> An exception is a value of type \<open>error\<close>; a function that can raise returns
    \<open>error + 'a\<close>, with \<open>Inl\<close> for the exception. There is one constructor for each
    \<^verbatim>\<open>raise\<close> site (and each implicit raise of the interpreter the model covers), and
    \<open>exc_class\<close> gives the Python exception class.
  \<^item> A \<^verbatim>\<open>dict\<close> is an association list in insertion order; \<^verbatim>\<open>d[k] = v\<close> is
    \<^const>\<open>AList.update\<close>, \<^verbatim>\<open>d[k]\<close> is \<^const>\<open>map_of\<close> with a \<^verbatim>\<open>KeyError\<close> on \<open>None\<close>.
  \<^item> A string is a list of code points below 256.
\<close>

subsection \<open>Exceptions\<close>

datatype exc = ValueError | IndexError | KeyError | TypeError | AttributeError | ZeroDivisionError

datatype error =
    UpstreamPressureUnset
  | BadFlowDirection string
  | InvalidArgument string
  | InletNotFirst int
  | OutletNotLast int
  | ListIndexOutOfRange
  | MissingKey string
  | UnknownReference string string
  | UnsupportedSpec string string string
  | BadCall string
  | NoAttribute string string
  | DivisionByZero

text \<open>
  \<open>UpstreamPressureUnset\<close>: \<^verbatim>\<open>ValueError("upstream.outlet_pressure must be set ...")\<close> of
  \<^verbatim>\<open>Pipe.compute\<close> and \<^verbatim>\<open>Junction.compute\<close>.
  \<open>BadFlowDirection d\<close>: \<^verbatim>\<open>ValueError("flow_direction must be 'up', 'down', or 'side' (got d)")\<close>.
  \<open>InvalidArgument msg\<close>: the \<^verbatim>\<open>ValueError(msg)\<close> of a geometry or loss function.
  \<open>InletNotFirst idx\<close>, \<open>OutletNotLast idx\<close>: the two \<^verbatim>\<open>IndexError\<close>s of \<^verbatim>\<open>build_network\<close>.
  \<open>ListIndexOutOfRange\<close>: \<^verbatim>\<open>network_list[-1]\<close> on an empty list.
  \<open>MissingKey k\<close>: a plain \<^verbatim>\<open>d[k]\<close> on a dict without \<open>k\<close>.
  \<open>UnknownReference t v\<close>: \<^verbatim>\<open>KeyError(f"Unknown {t} reference: {v}")\<close> of \<^verbatim>\<open>resolve_refs\<close>.
  \<open>UnsupportedSpec name nest key\<close>: the \<^verbatim>\<open>TypeError\<close> of \<^verbatim>\<open>build_network\<close>.
  \<open>BadCall what\<close>: the interpreter's \<^verbatim>\<open>TypeError\<close> for a call whose keywords do not fit
  the function's parameters, or whose argument is not a number.
  \<open>NoAttribute ty a\<close>: the interpreter's \<^verbatim>\<open>AttributeError\<close>, an object of type \<open>ty\<close>
  has no attribute \<open>a\<close>.
\<close>

fun exc_class :: "error \<Rightarrow> exc" where
  "exc_class UpstreamPressureUnset = ValueError"
| "exc_class (BadFlowDirection d) = ValueError"
| "exc_class (InvalidArgument m) = ValueError"
| "exc_class (InletNotFirst i) = IndexError"
| "exc_class (OutletNotLast i) = IndexError"
| "exc_class ListIndexOutOfRange = IndexError"
| "exc_class (MissingKey k) = KeyError"
| "exc_class (UnknownReference t v) = KeyError"
| "exc_class (UnsupportedSpec n t k) = TypeError"
| "exc_class (BadCall w) = TypeError"
| "exc_class (NoAttribute ty a) = AttributeError"
| "exc_class DivisionByZero = ZeroDivisionError"

definition and_then :: "error + 'a \<Rightarrow> ('a \<Rightarrow> error + 'b) \<Rightarrow> error + 'b" where
  "and_then r f = (case r of Inl e \<Rightarrow> Inl e | Inr x \<Rightarrow> f x)"

definition truediv :: "real \<Rightarrow> real \<Rightarrow> error + real" where
  "truediv a b = (if b = 0 then Inl DivisionByZero else Inr (a / b))"

subsection \<open>Element data model (flow\_network\_components.py)\<close>

text \<open>
  The four dataclasses are the constructors of one datatype, with the attribute names as
  selectors. \<open>upstream\<close> and \<open>last_node\<close> hold the referenced element itself: no element
  is mutated after its construction. The attribute \<open>outlet_pressure\<close> is a
  \<^typ>\<open>real option\<close>, \<open>None\<close> being Python's \<^verbatim>\<open>None\<close>, which the constructors test for.
\<close>

datatype element =
    Inlet (name: string) (outlet_pressure: "real option") (mass_flow_rate: real)
      (density: real) (temperature: real)
  | Outlet (name: string) (last_node: element)
  | Junction (name: string) (ref_area: real) (form_loss: real) (mass_flow_rate: real)
      (density: real) (upstream: element)
      (ref_velocity: real) (dp_loss: real) (pressure_drop: real) (inlet_pressure: real)
      (outlet_pressure: "real option")
  | Pipe (name: string) (length_p: real) (hydraulic_diameter: real) (friction_factor: real)
      (mass_flow_rate: real) (density: real) (inlet_area: real) (outlet_area: real)
      (upstream: element) (ref_area: real) (flow_direction: string)
      (alpha1: real) (alpha2: real)
      (inlet_velocity: real) (outlet_velocity: real) (ref_velocity: real)
      (dp_loss: real) (dp_gravity: real) (dp_accel: real) (pressure_drop: real)
      (inlet_pressure: real) (outlet_pressure: "real option")

datatype network = Network (network_name: string) (network_list: "element list")

text \<open>\<^verbatim>\<open>getattr(e, "outlet_pressure", None)\<close>: an \<^verbatim>\<open>Outlet\<close> has no such attribute.\<close>

fun getattr_outlet_pressure :: "element \<Rightarrow> real option" where
  "getattr_outlet_pressure (Outlet n l) = None"
| "getattr_outlet_pressure e = outlet_pressure e"

definition GRAVITY :: real where
  "GRAVITY = 9.80665"

text \<open>
  \<^verbatim>\<open>str.strip()\<close> removes the leading and trailing characters for which
  \<^verbatim>\<open>str.isspace()\<close> holds, \<^verbatim>\<open>str.lower()\<close> maps each cased character to lower case;
  both are given for code points below 256.
\<close>

definition isspace :: "char \<Rightarrow> bool" where
  "isspace c = ((of_char c :: nat) \<in> {9, 10, 11, 12, 13, 28, 29, 30, 31, 32, 133, 160})"

definition strip :: "string \<Rightarrow> string" where
  "strip s = rev (dropWhile isspace (rev (dropWhile isspace s)))"

definition lower_char :: "char \<Rightarrow> char" where
  "lower_char c =
     (let n = (of_char c :: nat)
      in if (65 \<le> n \<and> n \<le> 90) \<or> (192 \<le> n \<and> n \<le> 222 \<and> n \<noteq> 215)
         then char_of (n + 32) else c)"

definition lower :: "string \<Rightarrow> string" where
  "lower s = map lower_char s"

text \<open>The \<^verbatim>\<open>if/elif/else\<close> on \<^verbatim>\<open>dir_key\<close> in \<^verbatim>\<open>Pipe.compute\<close>.\<close>

definition direction_sign :: "string \<Rightarrow> error + real" where
  "direction_sign fd =
     (let dir_key = lower (strip fd)
      in if dir_key = ''up'' then Inr 1
         else if dir_key = ''down'' then Inr (- 1)
         else if dir_key = ''side'' then Inr 0
         else Inl (BadFlowDirection fd))"

text \<open>
  \<^verbatim>\<open>Junction(name, ref_area, form_loss, mass_flow_rate, density, upstream)\<close>: the dataclass
  constructor, which runs \<^verbatim>\<open>compute\<close> from \<^verbatim>\<open>__post_init__\<close>.
\<close>

definition Junction_new ::
  "string \<Rightarrow> real \<Rightarrow> real \<Rightarrow> real \<Rightarrow> real \<Rightarrow> element \<Rightarrow> error + element" where
  "Junction_new nm ra fl mfr rho up =
     (case getattr_outlet_pressure up of
        None \<Rightarrow> Inl UpstreamPressureUnset
      | Some p_up \<Rightarrow>
          and_then (truediv mfr (rho * ra)) (\<lambda>ref_v.
            let dpl = fl * 0.5 * rho * ref_v ^ 2;
                pd = dpl;
                p_in = p_up;
                p_out = p_in - pd
            in Inr (Junction nm ra fl mfr rho up ref_v dpl pd p_in (Some p_out))))"

text \<open>
  \<^verbatim>\<open>Pipe(name, length, hydraulic_diameter, friction_factor, mass_flow_rate, density,
  inlet_area, outlet_area, upstream, ref_area, flow_direction, alpha1, alpha2)\<close>.
\<close>

definition Pipe_new ::
  "string \<Rightarrow> real \<Rightarrow> real \<Rightarrow> real \<Rightarrow> real \<Rightarrow> real \<Rightarrow> real \<Rightarrow> real \<Rightarrow> element \<Rightarrow> real \<Rightarrow> string
     \<Rightarrow> real \<Rightarrow> real \<Rightarrow> error + element" where
  "Pipe_new nm len dh ff mfr rho ia oa up ra fd a1 a2 =
     (case getattr_outlet_pressure up of
        None \<Rightarrow> Inl UpstreamPressureUnset
      | Some p_up \<Rightarrow>
          and_then (truediv mfr (rho * ia)) (\<lambda>v_in.
          and_then (truediv mfr (rho * oa)) (\<lambda>v_out.
          and_then (truediv mfr (rho * ra)) (\<lambda>ref_v.
          let q_ref = 0.5 * rho * (ref_v ^ 2) in
          and_then (truediv len dh) (\<lambda>l_over_d.
          let dpl = ff * l_over_d * q_ref in
          and_then (direction_sign fd) (\<lambda>sign.
          let dpg = rho * GRAVITY * len * sign;
              dpa = 0.5 * rho * (a2 * v_out ^ 2 - a1 * v_in ^ 2);
              pd = dpl + dpg + dpa;
              p_in = p_up;
              p_out = p_in - pd
          in Inr (Pipe nm len dh ff mfr rho ia oa up ra fd a1 a2
                    v_in v_out ref_v dpl dpg dpa pd p_in (Some p_out))))))))"

subsection \<open>Geometry library (pdrop\_funcs.py)\<close>

text \<open>
  \<^verbatim>\<open>network_builder.py\<close> imports these functions by name from the package's geometry
  module; \<^verbatim>\<open>pdrop_funcs.py\<close> is where they are defined.
\<close>

definition area_circle :: "real \<Rightarrow> error + real" where
  "area_circle D =
     (if D < 0 then Inl (InvalidArgument ''D must be non-negative.'')
      else Inr (pi * (D ^ 2) / 4))"

definition area_rectangle :: "real \<Rightarrow> real \<Rightarrow> error + real" where
  "area_rectangle L w =
     (if L < 0 \<or> w < 0 then Inl (InvalidArgument ''L and w must be non-negative.'')
      else Inr (L * w))"

definition area_capsule_slot :: "real \<Rightarrow> real \<Rightarrow> error + real" where
  "area_capsule_slot b L =
     (if b < 0 \<or> L < 0 then Inl (InvalidArgument ''b and L must be non-negative.'')
      else and_then (area_rectangle L b) (\<lambda>r. and_then (area_circle b) (\<lambda>c. Inr (r + c))))"

definition area_annulus :: "real \<Rightarrow> real \<Rightarrow> real" where
  "area_annulus D_outer D_inner = pi * (D_outer ^ 2 - D_inner ^ 2) / 4"

definition wetted_perimeter_circle :: "real \<Rightarrow> real" where
  "wetted_perimeter_circle D = pi * D"

definition hydraulic_diameter_annulus :: "real \<Rightarrow> real \<Rightarrow> real" where
  "hydraulic_diameter_annulus D_outer D_inner = pi * (D_outer + D_inner)"

definition hydraulic_diameter_generic :: "real \<Rightarrow> real \<Rightarrow> error + real" where
  "hydraulic_diameter_generic A P_w = truediv (4 * A) P_w"

definition hydraulic_diameter_circle :: "'a \<Rightarrow> 'a" where
  "hydraulic_diameter_circle D = D"

definition hydraulic_diameter_annulus_concentric :: "real \<Rightarrow> real \<Rightarrow> real" where
  "hydraulic_diameter_annulus_concentric D_outer D_inner = D_outer - D_inner"

definition hydraulic_diameter_rect_slot :: "real \<Rightarrow> real \<Rightarrow> error + real" where
  "hydraulic_diameter_rect_slot a b = truediv (2 * a * b) (a + b)"

definition hydraulic_diameter_capsule_slot :: "real \<Rightarrow> real \<Rightarrow> error + real" where
  "hydraulic_diameter_capsule_slot b L =
     (let A = b * L + pi * (b ^ 2) / 4;
          Pw = 2 * L + pi * b
      in truediv (4 * A) Pw)"

subsection \<open>Loss-coefficient library (loss\_utils.py)\<close>

text \<open>
  \<^verbatim>\<open>numpy.interp(x, xp, fp)\<close> for a scalar \<open>x\<close> and a table with increasing \<open>xp\<close>, the
  table given as the list of pairs \<open>(xp[i], fp[i])\<close>: linear between two points, the
  boundary value outside the table.
\<close>

fun interp :: "real \<Rightarrow> (real \<times> real) list \<Rightarrow> real" where
  "interp x [] = 0"
| "interp x [(x0, y0)] = y0"
| "interp x ((x0, y0) # (x1, y1) # t) =
     (if x \<le> x0 then y0
      else if x < x1 then y0 + (y1 - y0) / (x1 - x0) * (x - x0)
      else interp x ((x1, y1) # t))"

definition sudden_contraction :: "real \<Rightarrow> real \<Rightarrow> error + real" where
  "sudden_contraction inlet_a outlet_a =
     (if inlet_a \<le> 0 \<or> outlet_a \<le> 0 then Inl (InvalidArgument ''Areas must be positive.'')
      else
        let r = max 0 (min 1 (outlet_a / inlet_a))
        in Inr (interp r [(0, 1), (0.2, 0.85), (0.4, 0.68), (0.6, 0.503), (0.8, 0.3),
                          (0.9, 0.178), (1, 0)]))"

definition free_discharge :: "error + real" where
  "free_discharge = Inr 1"

definition sudden_expansion :: "real \<Rightarrow> real \<Rightarrow> error + real" where
  "sudden_expansion inlet_a outlet_a =
     and_then (truediv inlet_a outlet_a) (\<lambda>q. Inr ((1 - q) ^ 2))"

definition f_annulus_turbulent :: "real \<Rightarrow> real \<Rightarrow> real \<Rightarrow> error + real" where
  "f_annulus_turbulent lambda_circ D_outer D_inner =
     (if D_outer \<le> 0 \<or> D_inner \<le> 0 then Inl (InvalidArgument ''Diameters must be positive.'')
      else if \<not> (D_inner < D_outer)
        then Inl (InvalidArgument ''Require D_inner < D_outer for a concentric annulus.'')
      else if lambda_circ \<le> 0 then Inl (InvalidArgument ''lambda_circ must be positive.'')
      else
        let r = D_inner / D_outer;
            inv_lambda_ann = (0.02 * r + 0.98) * (1 / lambda_circ - 0.27 * r + 0.1)
        in if inv_lambda_ann \<le> 0
           then Inl (InvalidArgument
                  ''Computed 1/lambda_ann <= 0; check inputs (Re, roughness, diameters).'')
           else Inr (1 / inv_lambda_ann))"

definition sharp_thick_inlet_facing_baffle :: "real \<Rightarrow> real \<Rightarrow> error + real" where
  "sharp_thick_inlet_facing_baffle baffle_gap hyd_d =
     (if hyd_d \<le> 0 then Inl (InvalidArgument ''hydraulic_diameter must be > 0.'')
      else
        let k_prime = 0.5;
            r = baffle_gap / hyd_d;
            sigma1 = (if r \<ge> 1 then 0
                      else interp r [(0.2, 1.6), (0.3, 0.65), (0.4, 0.37), (0.5, 0.25),
                                     (0.6, 0.15), (0.7, 0.07), (0.8, 0.04), (1, 0)])
        in Inr (k_prime + sigma1))"

definition discharge_from_straight_tube_to_baffle :: "real \<Rightarrow> real \<Rightarrow> error + real" where
  "discharge_from_straight_tube_to_baffle baffle_gap hyd_d =
     (if hyd_d \<le> 0 then Inl (InvalidArgument ''hydraulic_diameter must be > 0.'')
      else
        let r = baffle_gap / hyd_d
        in Inr (interp r [(0.5, 1.37), (0.6, 1.2), (0.7, 1.11), (1, 1)]))"

definition smooth_cone_diffuser_nar1 :: "real \<Rightarrow> error + real" where
  "smooth_cone_diffuser_nar1 diverging_angle =
     Inr (interp diverging_angle
            [(3, 0.12), (4, 0.106), (6, 0.09), (8, 0.083), (10, 0.08), (12, 0.088),
             (14, 0.102), (16, 0.122), (20, 0.196), (30, 0.298), (45, 0.297), (60, 0.286),
             (90, 0.283), (120, 0.279)])"

text \<open>
  The two bevelled contractions differ in their table only. \<^verbatim>\<open>x ** 0.75\<close> is taken on a
  base in \<open>[0, 1)\<close>, where it is \<^term>\<open>x powr 0.75\<close>.
\<close>

definition beveled_contraction ::
  "(real \<times> real) list \<Rightarrow> real \<Rightarrow> real \<Rightarrow> real \<Rightarrow> real \<Rightarrow> error + real" where
  "beveled_contraction table bevel_length hyd_d inlet_a outlet_a =
     (if inlet_a \<le> 0 \<or> outlet_a \<le> 0 then Inl (InvalidArgument ''Areas must be positive.'')
      else
        let r = outlet_a / inlet_a
        in if \<not> (0 < r \<and> r \<le> 1)
           then Inl (InvalidArgument ''outlet_area / inlet_area must be in (0, 1].'')
           else and_then (truediv bevel_length hyd_d) (\<lambda>l_over_d.
                  let zeta_pp = interp l_over_d table
                  in Inr (zeta_pp * (1 - r) powr 0.75)))"

definition beveled_contraction_alpha60 :: "real \<Rightarrow> real \<Rightarrow> real \<Rightarrow> real \<Rightarrow> error + real" where
  "beveled_contraction_alpha60 =
     beveled_contraction
       [(0.025, 0.4), (0.05, 0.3), (0.075, 0.23), (0.1, 0.18), (0.15, 0.15), (0.6, 0.12)]"

definition beveled_contraction_alpha140 :: "real \<Rightarrow> real \<Rightarrow> real \<Rightarrow> real \<Rightarrow> error + real" where
  "beveled_contraction_alpha140 =
     beveled_contraction
       [(0.025, 0.45), (0.05, 0.42), (0.075, 0.4), (0.1, 0.38), (0.15, 0.37), (0.6, 0.36)]"

subsection \<open>Specification values and the registries (network\_builder.py)\<close>

text \<open>
  A value of a \<^verbatim>\<open>geom\<close> or \<^verbatim>\<open>loss\<close> sub-object as the YAML loader returns it: null, a
  number, a string, or the dict \<^verbatim>\<open>{func: ..., params: ...}\<close> (\<open>params\<close> a dict, or
  \<open>None\<close> for a YAML null). Parameter values and materialized values are of the same
  type. YAML booleans and sequences, and dicts of another shape, are left out.
\<close>

datatype pyval =
    PNone
  | PNum real
  | PStr string
  | PCall string "(string \<times> pyval) list option"

type_synonym pydict = "(string \<times> pyval) list"

text \<open>\<^verbatim>\<open>isinstance(spec, (int, float))\<close>\<close>

fun is_number :: "pyval \<Rightarrow> bool" where
  "is_number (PNum x) = True"
| "is_number v = False"

text \<open>
  A library function with its parameter names. \<open>call\<close> is \<^verbatim>\<open>f(**kwargs)\<close>: a keyword
  that is no parameter, or a parameter without keyword, is a \<^verbatim>\<open>TypeError\<close>. A function
  that computes on its arguments (\<open>Fun0\<close> to \<open>Fun4\<close>) takes numbers: an argument that is
  not a number is reported as \<^verbatim>\<open>TypeError\<close> at the call, where Python raises it at the
  first comparison or arithmetic on it. \<open>FunAny\<close> is a function of one parameter that
  does not compute on it and so takes any value (\<^verbatim>\<open>hydraulic_diameter_circle\<close>).
\<close>

datatype pyfun =
    Fun0 "error + real"
  | Fun1 string "real \<Rightarrow> error + real"
  | Fun2 string string "real \<Rightarrow> real \<Rightarrow> error + real"
  | Fun3 string string string "real \<Rightarrow> real \<Rightarrow> real \<Rightarrow> error + real"
  | Fun4 string string string string "real \<Rightarrow> real \<Rightarrow> real \<Rightarrow> real \<Rightarrow> error + real"
  | FunAny string "pyval \<Rightarrow> error + pyval"

fun param_names :: "pyfun \<Rightarrow> string list" where
  "param_names (Fun0 r) = []"
| "param_names (Fun1 a f) = [a]"
| "param_names (Fun2 a b f) = [a, b]"
| "param_names (Fun3 a b c f) = [a, b, c]"
| "param_names (Fun4 a b c d f) = [a, b, c, d]"
| "param_names (FunAny a f) = [a]"

definition arg :: "pydict \<Rightarrow> string \<Rightarrow> error + real" where
  "arg kwargs a =
     (case map_of kwargs a of
        None \<Rightarrow> Inl (BadCall ''missing required argument'')
      | Some (PNum x) \<Rightarrow> Inr x
      | Some v \<Rightarrow> Inl (BadCall ''argument is not a number''))"

definition value_arg :: "pydict \<Rightarrow> string \<Rightarrow> error + pyval" where
  "value_arg kwargs a =
     (case map_of kwargs a of
        None \<Rightarrow> Inl (BadCall ''missing required argument'')
      | Some v \<Rightarrow> Inr v)"

definition number :: "real \<Rightarrow> error + pyval" where
  "number x = Inr (PNum x)"

fun apply_fun :: "pyfun \<Rightarrow> pydict \<Rightarrow> error + pyval" where
  "apply_fun (Fun0 r) kw = and_then r number"
| "apply_fun (Fun1 a f) kw = and_then (and_then (arg kw a) f) number"
| "apply_fun (Fun2 a b f) kw =
     and_then (and_then (arg kw a) (\<lambda>x. and_then (arg kw b) (\<lambda>y. f x y))) number"
| "apply_fun (Fun3 a b c f) kw =
     and_then
       (and_then (arg kw a) (\<lambda>x. and_then (arg kw b) (\<lambda>y. and_then (arg kw c) (\<lambda>z. f x y z))))
       number"
| "apply_fun (Fun4 a b c d f) kw =
     and_then
       (and_then (arg kw a) (\<lambda>x. and_then (arg kw b) (\<lambda>y. and_then (arg kw c) (\<lambda>z.
          and_then (arg kw d) (\<lambda>w. f x y z w)))))
       number"
| "apply_fun (FunAny a f) kw = and_then (value_arg kw a) f"

definition call :: "pyfun \<Rightarrow> pydict option \<Rightarrow> error + pyval" where
  "call f kwargs =
     (case kwargs of
        None \<Rightarrow> Inl (BadCall ''argument after ** must be a mapping'')
      | Some kw \<Rightarrow>
          if \<not> list_all (\<lambda>k. k \<in> set (param_names f)) (map fst kw)
          then Inl (BadCall ''unexpected keyword argument'')
          else apply_fun f kw)"

definition GEOM_REGISTRY :: "(string \<times> pyfun) list" where
  "GEOM_REGISTRY =
     [(''area_circle'', Fun1 ''D'' area_circle),
      (''area_annulus'', Fun2 ''D_outer'' ''D_inner'' (\<lambda>a b. Inr (area_annulus a b))),
      (''hydraulic_diameter_annulus'',
         Fun2 ''D_outer'' ''D_inner'' (\<lambda>a b. Inr (hydraulic_diameter_annulus a b))),
      (''hydraulic_diameter_circle'', FunAny ''D'' (\<lambda>a. Inr (hydraulic_diameter_circle a))),
      (''hydraulic_diameter_capsule_slot'', Fun2 ''b'' ''L'' hydraulic_diameter_capsule_slot),
      (''area_capsule_slot'', Fun2 ''b'' ''L'' area_capsule_slot)]"

definition LOSS_REGISTRY :: "(string \<times> pyfun) list" where
  "LOSS_REGISTRY =
     [(''f_annulus_turbulent'', Fun3 ''lambda_circ'' ''D_outer'' ''D_inner'' f_annulus_turbulent),
      (''free_discharge'', Fun0 free_discharge),
      (''sudden_expansion'', Fun2 ''inlet_area'' ''outlet_area'' sudden_expansion),
      (''beveled_contraction_alpha60'',
         Fun4 ''bevel_length'' ''hydraulic_diameter'' ''inlet_area'' ''outlet_area''
           beveled_contraction_alpha60),
      (''beveled_contraction_alpha140'',
         Fun4 ''bevel_length'' ''hydraulic_diameter'' ''inlet_area'' ''outlet_area''
           beveled_contraction_alpha140),
      (''sharp_thick_inlet_facing_baffle'',
         Fun2 ''baffle_gap'' ''hydraulic_diameter'' sharp_thick_inlet_facing_baffle),
      (''discharge_from_straight_tube_to_baffle'',
         Fun2 ''baffle_gap'' ''hydraulic_diameter'' discharge_from_straight_tube_to_baffle),
      (''smooth_cone_diffuser_nar1'', Fun1 ''diverging_angle'' smooth_cone_diffuser_nar1),
      (''sudden_contraction'', Fun2 ''inlet_area'' ''outlet_area'' sudden_contraction)]"

text \<open>\<^verbatim>\<open>d[k]\<close> on a dict.\<close>

definition getitem :: "(string \<times> 'a) list \<Rightarrow> string \<Rightarrow> error + 'a" where
  "getitem d k = (case map_of d k of None \<Rightarrow> Inl (MissingKey k) | Some v \<Rightarrow> Inr v)"

subsection \<open>resolve\_refs\<close>

text \<open>
  \<open>materialized\<close> is the dict of the two dicts \<^verbatim>\<open>{"geom": {...}, "loss": {...}}\<close>.
  For a string \<open>v\<close>, \<open>is_ref prefix v\<close> is the test
  \<^verbatim>\<open>v.startswith(prefix) and v.endswith("}")\<close>, and \<open>ref_key\<close> the slice
  \<^verbatim>\<open>v[len(prefix):-1]\<close>.
\<close>

type_synonym materialized = "(string \<times> pydict) list"

definition is_ref :: "string \<Rightarrow> string \<Rightarrow> bool" where
  "is_ref prefix v = (take (length prefix) v = prefix \<and> v \<noteq> [] \<and> last v = CHR ''}'')"

definition ref_key :: "string \<Rightarrow> string \<Rightarrow> string" where
  "ref_key prefix v = drop (length prefix) (butlast v)"

text \<open>
  The \<^verbatim>\<open>for k, v in func_kwargs.items()\<close> loop, with \<open>out\<close> the dict built so far. Both
  lookups of \<^verbatim>\<open>materialized[spec_type][key]\<close> are inside the \<^verbatim>\<open>try\<close>.
\<close>

fun resolve_items :: "string \<Rightarrow> materialized \<Rightarrow> pydict \<Rightarrow> pydict \<Rightarrow> error + pydict" where
  "resolve_items spec_type mat [] out = Inr out"
| "resolve_items spec_type mat ((k, PStr v) # rest) out =
     (let prefix = ''${'' @ spec_type @ ''.''
      in if is_ref prefix v then
           (case map_of mat spec_type of
              None \<Rightarrow> Inl (UnknownReference spec_type v)
            | Some d \<Rightarrow>
                (case map_of d (ref_key prefix v) of
                   None \<Rightarrow> Inl (UnknownReference spec_type v)
                 | Some x \<Rightarrow> resolve_items spec_type mat rest (AList.update k x out)))
         else resolve_items spec_type mat rest (AList.update k (PStr v) out))"
| "resolve_items spec_type mat ((k, v) # rest) out =
     resolve_items spec_type mat rest (AList.update k v out)"

definition resolve_refs :: "pydict option \<Rightarrow> materialized \<Rightarrow> string \<Rightarrow> error + pydict" where
  "resolve_refs func_kwargs mat spec_type =
     (case func_kwargs of
        None \<Rightarrow> Inr []
      | Some kw \<Rightarrow> if kw = [] then Inr [] else resolve_items spec_type mat kw [])"

subsection \<open>build\_network\<close>

text \<open>
  The input specification. A descriptor (\<^verbatim>\<open>sample_case\<close>) has its \<^verbatim>\<open>type\<close> and \<^verbatim>\<open>name\<close>;
  each sub-object is \<open>None\<close> when the key is absent, which is a \<^verbatim>\<open>KeyError\<close> where the
  builder reads it. The flow fields of an inlet are numbers, the pressure possibly null.
\<close>

record flow_spec =
  flow_pressure :: "real option"
  flow_mass_flow_rate :: real
  flow_density :: real
  flow_temperature :: real

record ref_area_spec =
  station :: string
  flow_splits :: "real option"

record sample_case =
  sc_type :: string
  sc_name :: string
  sc_flow :: "flow_spec option"
  sc_geom :: "pydict option"
  sc_loss :: "pydict option"
  sc_ref_area :: "ref_area_spec option"

record inputs =
  inputs_name :: string
  inputs_network :: "sample_case list"

definition getkey :: "'a option \<Rightarrow> string \<Rightarrow> error + 'a" where
  "getkey field k = (case field of None \<Rightarrow> Inl (MissingKey k) | Some v \<Rightarrow> Inr v)"

text \<open>\<^verbatim>\<open>materialized[nest_type][key] = value\<close>\<close>

definition setitem2 :: "materialized \<Rightarrow> string \<Rightarrow> string \<Rightarrow> pyval \<Rightarrow> error + materialized" where
  "setitem2 mat nest_type key v =
     and_then (getitem mat nest_type) (\<lambda>d.
       Inr (AList.update nest_type (AList.update key v d) mat))"

text \<open>The body of the loop over the entries of one sub-object.\<close>

fun materialize_entry ::
  "string \<Rightarrow> string \<Rightarrow> string \<Rightarrow> pyval \<Rightarrow> materialized \<Rightarrow> error + materialized" where
  "materialize_entry nm nest_type key spec mat =
     (if is_number spec \<or> key = ''flow_direction'' then setitem2 mat nest_type key spec
      else
        (case spec of
           PCall fn_name params \<Rightarrow>
             and_then
               (if nest_type = ''loss''
                then and_then (resolve_refs params mat ''geom'') (\<lambda>kw. Inr (Some kw))
                else Inr params) (\<lambda>func_kwargs.
             and_then
               (getitem (if nest_type = ''geom'' then GEOM_REGISTRY else LOSS_REGISTRY) fn_name)
               (\<lambda>f.
             and_then (call f func_kwargs) (\<lambda>v. setitem2 mat nest_type key v)))
         | _ \<Rightarrow> Inl (UnsupportedSpec nm nest_type key)))"

fun materialize_items ::
  "string \<Rightarrow> string \<Rightarrow> pydict \<Rightarrow> materialized \<Rightarrow> error + materialized" where
  "materialize_items nm nest_type [] mat = Inr mat"
| "materialize_items nm nest_type ((key, spec) # rest) mat =
     and_then (materialize_entry nm nest_type key spec mat)
       (materialize_items nm nest_type rest)"

text \<open>The loop \<^verbatim>\<open>for nest_type in materialized.keys()\<close>: \<^verbatim>\<open>"geom"\<close>, then \<^verbatim>\<open>"loss"\<close>.\<close>

definition materialize :: "sample_case \<Rightarrow> error + materialized" where
  "materialize sc =
     (let mat0 = [(''geom'', []), (''loss'', [])]
      in and_then (getkey (sc_geom sc) ''geom'') (\<lambda>g.
         and_then (materialize_items (sc_name sc) ''geom'' g mat0) (\<lambda>mat1.
         and_then (getkey (sc_loss sc) ''loss'') (\<lambda>l.
         materialize_items (sc_name sc) ''loss'' l mat1))))"

text \<open>
  The constructors take numbers and a string, the builder passes materialized values.
  Python checks no type at the call: a value that is not a number raises \<^verbatim>\<open>TypeError\<close>
  (and a \<^verbatim>\<open>flow_direction\<close> that is not a string the \<^verbatim>\<open>AttributeError\<close> of \<^verbatim>\<open>.strip()\<close>) at
  the statement of \<^verbatim>\<open>compute\<close> that first uses it, after the test of the upstream pressure
  and after the divisions of the statements before. \<open>Pipe_of_values\<close> and
  \<open>Junction_of_values\<close> go through these uses in the order of \<^verbatim>\<open>compute\<close> and then
  construct the element.
\<close>

fun as_float :: "pyval \<Rightarrow> error + real" where
  "as_float (PNum x) = Inr x"
| "as_float v = Inl (BadCall ''unsupported operand type'')"

fun as_str :: "pyval \<Rightarrow> error + string" where
  "as_str (PStr s) = Inr s"
| "as_str (PNum x) = Inl (NoAttribute ''float'' ''strip'')"
| "as_str PNone = Inl (NoAttribute ''NoneType'' ''strip'')"
| "as_str (PCall f p) = Inl (NoAttribute ''dict'' ''strip'')"

definition Pipe_of_values ::
  "string \<Rightarrow> pyval \<Rightarrow> pyval \<Rightarrow> pyval \<Rightarrow> real \<Rightarrow> real \<Rightarrow> pyval \<Rightarrow> pyval \<Rightarrow> element \<Rightarrow> pyval
     \<Rightarrow> pyval \<Rightarrow> error + element" where
  "Pipe_of_values nm len_v dh_v ff_v mfr rho ia_v oa_v up ra_v fd_v =
     (if getattr_outlet_pressure up = None then Inl UpstreamPressureUnset
      else
        and_then (as_float ia_v) (\<lambda>ia. and_then (truediv mfr (rho * ia)) (\<lambda>v_in.
        and_then (as_float oa_v) (\<lambda>oa. and_then (truediv mfr (rho * oa)) (\<lambda>v_out.
        and_then (as_float ra_v) (\<lambda>ra. and_then (truediv mfr (rho * ra)) (\<lambda>ref_v.
        and_then (as_float len_v) (\<lambda>len. and_then (as_float dh_v) (\<lambda>dh.
        and_then (truediv len dh) (\<lambda>l_over_d.
        and_then (as_float ff_v) (\<lambda>ff.
        and_then (as_str fd_v) (\<lambda>fd.
        Pipe_new nm len dh ff mfr rho ia oa up ra fd 1 1))))))))))))"

definition Junction_of_values ::
  "string \<Rightarrow> pyval \<Rightarrow> pyval \<Rightarrow> real \<Rightarrow> real \<Rightarrow> element \<Rightarrow> error + element" where
  "Junction_of_values nm ra_v fl_v mfr rho up =
     (if getattr_outlet_pressure up = None then Inl UpstreamPressureUnset
      else
        and_then (as_float ra_v) (\<lambda>ra. and_then (truediv mfr (rho * ra)) (\<lambda>ref_v.
        and_then (as_float fl_v) (\<lambda>fl.
        Junction_new nm ra fl mfr rho up))))"

text \<open>\<^verbatim>\<open>network_list[-1]\<close>\<close>

definition last_element :: "element list \<Rightarrow> error + element" where
  "last_element nl =
     (if nl = [] then Inl ListIndexOutOfRange else Inr (last nl))"

text \<open>\<^verbatim>\<open>inlet_plenum.a\<close>, with \<open>inlet_plenum\<close> possibly \<^verbatim>\<open>None\<close>.\<close>

definition inlet_attr :: "element option \<Rightarrow> string \<Rightarrow> (element \<Rightarrow> 'a) \<Rightarrow> error + 'a" where
  "inlet_attr inlet_plenum a sel =
     (case inlet_plenum of None \<Rightarrow> Inl (NoAttribute ''NoneType'' a) | Some i \<Rightarrow> Inr (sel i))"

text \<open>
  The \<^verbatim>\<open>else\<close> branch of the loop body of \<^verbatim>\<open>build_network\<close>, for a descriptor that is
  neither inlet nor outlet: the element to append. The arguments of the constructor are
  evaluated in the order in which the call writes them.
\<close>

definition build_element ::
  "sample_case \<Rightarrow> element list \<Rightarrow> element option \<Rightarrow> error + element" where
  "build_element sc nl inlet_plenum =
     and_then (materialize sc) (\<lambda>mat.
     and_then (getitem mat ''geom'') (\<lambda>geom.
     and_then (getitem mat ''loss'') (\<lambda>loss.
     and_then (getkey (sc_ref_area sc) ''ref_area'') (\<lambda>ra_spec.
     and_then (getitem geom (station ra_spec)) (\<lambda>ref_area_v.
     let fsplits = (case flow_splits ra_spec of None \<Rightarrow> 1 | Some x \<Rightarrow> x) in
     if sc_type sc = ''pipe'' then
       and_then (getitem geom ''length'') (\<lambda>len_v.
       and_then (getitem geom ''flow_direction'') (\<lambda>fd_v.
       and_then (getitem geom ''hydraulic_diameter'') (\<lambda>dh_v.
       and_then (getitem loss ''friction'') (\<lambda>ff_v.
       and_then (inlet_attr inlet_plenum ''mass_flow_rate'' mass_flow_rate) (\<lambda>mfr.
       and_then (inlet_attr inlet_plenum ''density'' density) (\<lambda>rho.
       and_then (getitem geom ''inlet_area'') (\<lambda>ia_v.
       and_then (getitem geom ''outlet_area'') (\<lambda>oa_v.
       and_then (last_element nl) (\<lambda>up.
       Pipe_of_values (sc_name sc) len_v dh_v ff_v mfr rho ia_v oa_v up ref_area_v fd_v)))))))))
     else
       and_then (inlet_attr inlet_plenum ''mass_flow_rate'' mass_flow_rate) (\<lambda>mfr0.
       and_then (truediv mfr0 fsplits) (\<lambda>mfr.
       and_then (inlet_attr inlet_plenum ''density'' density) (\<lambda>rho.
       and_then (getitem loss ''form'') (\<lambda>fl_v.
       and_then (last_element nl) (\<lambda>up.
       Junction_of_values (sc_name sc) ref_area_v fl_v mfr rho up))))))))))"

text \<open>
  The loop \<^verbatim>\<open>for idx, sample_case in enumerate(inputs["network"])\<close>: \<open>n\<close> is
  \<^verbatim>\<open>len(inputs["network"])\<close>, the list is what is left to iterate, and the result is
  \<^verbatim>\<open>network_list\<close> (here \<open>nl\<close>) when the loop ends or breaks.
\<close>

fun build_loop ::
  "int \<Rightarrow> int \<Rightarrow> sample_case list \<Rightarrow> element list \<Rightarrow> element option \<Rightarrow> error + element list" where
  "build_loop n idx [] nl inlet_plenum = Inr nl"
| "build_loop n idx (sc # rest) nl inlet_plenum =
     (if sc_type sc = ''inlet'' then
        (if idx \<noteq> 0 then Inl (InletNotFirst idx)
         else
           and_then (getkey (sc_flow sc) ''flow'') (\<lambda>fl.
             let inlet = Inlet (sc_name sc) (flow_pressure fl) (flow_mass_flow_rate fl)
                           (flow_density fl) (flow_temperature fl)
             in build_loop n (idx + 1) rest (nl @ [inlet]) (Some inlet)))
      else if sc_type sc = ''outlet'' then
        (if idx \<noteq> n - 1 then Inl (OutletNotLast idx)
         else
           and_then (last_element nl) (\<lambda>l.
             Inr (nl @ [Outlet (sc_name sc) l])))
      else
        and_then (build_element sc nl inlet_plenum) (\<lambda>network_obj.
          build_loop n (idx + 1) rest (nl @ [network_obj]) inlet_plenum))"

definition build_network :: "inputs \<Rightarrow> error + network" where
  "build_network inp =
     and_then (build_loop (int (length (inputs_network inp))) 0 (inputs_network inp) [] None)
       (\<lambda>nl. Inr (Network (inputs_name inp) nl))"

subsection \<open>The chain invariant\<close>

text \<open>
  Every Pipe or Junction after the first position has the preceding element as its
  upstream, and that element's outlet pressure as its inlet pressure.
\<close>

definition chain_ok :: "element list \<Rightarrow> bool" where
  "chain_ok nl = (\<forall>i. 0 < i \<and> i < length nl \<and> (is_Pipe (nl ! i) \<or> is_Junction (nl ! i)) \<longrightarrow>
      upstream (nl ! i) = nl ! (i - 1)
      \<and> getattr_outlet_pressure (nl ! (i - 1)) = Some (inlet_pressure (nl ! i)))"

subsection \<open>Example specifications\<close>

text \<open>
  An inlet at 500 kPa with mass flow 2 and density 2, a horizontal pipe, a sudden
  expansion whose loss parameters refer to the geometry of the same descriptor, and an
  outlet.
\<close>

definition ex_inlet :: sample_case where
  "ex_inlet = \<lparr>sc_type = ''inlet'', sc_name = ''in'',
      sc_flow = Some \<lparr>flow_pressure = Some 500000, flow_mass_flow_rate = 2, flow_density = 2,
                       flow_temperature = 300\<rparr>,
      sc_geom = None, sc_loss = None, sc_ref_area = None\<rparr>"

definition ex_pipe :: sample_case where
  "ex_pipe = \<lparr>sc_type = ''pipe'', sc_name = ''p1'', sc_flow = None,
      sc_geom = Some [(''length'', PNum 1), (''flow_direction'', PStr ''side''),
                      (''hydraulic_diameter'',
                         PCall ''hydraulic_diameter_circle'' (Some [(''D'', PNum 0.1)])),
                      (''inlet_area'', PNum 1), (''outlet_area'', PNum 1)],
      sc_loss = Some [(''friction'', PNum 0.02)],
      sc_ref_area = Some \<lparr>station = ''inlet_area'', flow_splits = None\<rparr>\<rparr>"

definition ex_junction :: sample_case where
  "ex_junction = \<lparr>sc_type = ''junction'', sc_name = ''j1'', sc_flow = None,
      sc_geom = Some [(''inlet_area'', PNum 1), (''outlet_area'', PNum 2)],
      sc_loss = Some [(''form'', PCall ''sudden_expansion''
                         (Some [(''inlet_area'', PStr ''${geom.inlet_area}''),
                                (''outlet_area'', PStr ''${geom.outlet_area}'')]))],
      sc_ref_area = Some \<lparr>station = ''inlet_area'', flow_splits = None\<rparr>\<rparr>"

definition ex_outlet :: sample_case where
  "ex_outlet = \<lparr>sc_type = ''outlet'', sc_name = ''out'', sc_flow = None,
      sc_geom = None, sc_loss = None, sc_ref_area = None\<rparr>"

definition ex_inputs :: inputs where
  "ex_inputs = \<lparr>inputs_name = ''n'',
                 inputs_network = [ex_inlet, ex_pipe, ex_junction, ex_outlet]\<rparr>"

text \<open>A junction whose loss entry names a function that is in no registry.\<close>

definition ex_unknown_loss :: sample_case where
  "ex_unknown_loss = \<lparr>sc_type = ''junction'', sc_name = ''j2'', sc_flow = None,
      sc_geom = Some [(''inlet_area'', PNum 1)],
      sc_loss = Some [(''form'', PCall ''no_such_loss'' (Some []))],
      sc_ref_area = Some \<lparr>station = ''inlet_area'', flow_splits = None\<rparr>\<rparr>"

subsection \<open>The range of a double\<close>

text \<open>
  A number whose magnitude is at most the largest finite double,
  \<^verbatim>\<open>(2 - 2**-52) * 2**1023\<close>. A Python integer in this range converts to a \<^verbatim>\<open>float\<close>;
  beyond it, arithmetic that mixes it with a \<^verbatim>\<open>float\<close> raises \<^verbatim>\<open>OverflowError\<close>.
\<close>

definition double_range :: "real \<Rightarrow> bool" where
  "double_range x = (\<bar>x\<bar> \<le> 2 ^ 1024 - 2 ^ 971)"

text \<open>
  Bounds under which the float arithmetic of \<^verbatim>\<open>compute\<close> raises where the arithmetic of
  the reals does, and nowhere else. For a velocity \<^verbatim>\<open>mass_flow_rate / (density * area)\<close>:
  the product is a normal double, so it does not round to zero, and the square of the
  velocity stays a factor two below the largest double, so \<^verbatim>\<open>**\<close> raises no
  \<^verbatim>\<open>OverflowError\<close>. For a Pipe: every number given to the constructor, and the upstream
  pressure, is in the range of a double, and the three velocities are as above.
\<close>

definition velocity_in_range :: "real \<Rightarrow> real \<Rightarrow> real \<Rightarrow> bool" where
  "velocity_in_range mfr rho a =
     (1 / 2 ^ 1022 \<le> \<bar>rho * a\<bar> \<and> \<bar>rho * a\<bar> \<le> 2 ^ 1023 \<and> (mfr / (rho * a)) ^ 2 \<le> 2 ^ 1023)"

definition pipe_in_range ::
  "real \<Rightarrow> real \<Rightarrow> real \<Rightarrow> real \<Rightarrow> real \<Rightarrow> real \<Rightarrow> real \<Rightarrow> element \<Rightarrow> real \<Rightarrow> real \<Rightarrow> real
     \<Rightarrow> bool" where
  "pipe_in_range len dh ff mfr rho ia oa up ra a1 a2 =
     (double_range len \<and> double_range dh \<and> double_range ff \<and> double_range mfr
      \<and> double_range rho \<and> double_range ia \<and> double_range oa \<and> double_range ra
      \<and> double_range a1 \<and> double_range a2
      \<and> (case getattr_outlet_pressure up of None \<Rightarrow> True | Some p \<Rightarrow> double_range p)
      \<and> velocity_in_range mfr rho ia \<and> velocity_in_range mfr rho oa
      \<and> velocity_in_range mfr rho ra)"

subsection \<open>Auxiliary notions for the resolution of references\<close>

text \<open>The prefix that \<^verbatim>\<open>resolve_refs\<close> computes for \<^verbatim>\<open>spec_type = "geom"\<close>.\<close>

definition geom_prefix :: string where
  "geom_prefix = ''${'' @ ''geom'' @ ''.''"

text \<open>
  What one iteration of the loop of \<^verbatim>\<open>resolve_refs\<close> stores for the parameter value \<open>v\<close>
  when the \<open>geom\<close> dict is \<open>g\<close>; \<open>None\<close> when it raises.
\<close>

definition resolve_param :: "pydict \<Rightarrow> pyval \<Rightarrow> pyval option" where
  "resolve_param g v =
     (case v of
        PStr s \<Rightarrow> if is_ref geom_prefix s then map_of g (ref_key geom_prefix s) else Some v
      | _ \<Rightarrow> Some v)"

text \<open>
  The value that \<^verbatim>\<open>build_network\<close> computes for one entry of a sub-object before it
  stores it: \<open>materialize_entry\<close> without the final assignment.
\<close>

definition entry_value ::
  "string \<Rightarrow> string \<Rightarrow> string \<Rightarrow> pyval \<Rightarrow> materialized \<Rightarrow> error + pyval" where
  "entry_value nm nest_type key spec mat =
     (if is_number spec \<or> key = ''flow_direction'' then Inr spec
      else
        (case spec of
           PCall fn_name params \<Rightarrow>
             and_then
               (if nest_type = ''loss''
                then and_then (resolve_refs params mat ''geom'') (\<lambda>kw. Inr (Some kw))
                else Inr params) (\<lambda>func_kwargs.
             and_then
               (getitem (if nest_type = ''geom'' then GEOM_REGISTRY else LOSS_REGISTRY) fn_name)
               (\<lambda>f. call f func_kwargs))
         | _ \<Rightarrow> Inl (UnsupportedSpec nm nest_type key)))"

section \<open>Properties\<close>

subsection \<open>What a successful construction is\<close>

text \<open>
  A \<^verbatim>\<open>Junction\<close> is constructed exactly when the upstream pressure is set and the
  divisor of the reference velocity is not zero; a \<^verbatim>\<open>Pipe\<close> exactly when, moreover, its
  three other divisors are not zero and the flow direction is one of the three tokens.
  The constructed element is then determined.
\<close>

lemma Junction_new_Inr:
  "Junction_new nm ra fl mfr rho up = Inr j \<longleftrightarrow>
     (\<exists>p. getattr_outlet_pressure up = Some p \<and> rho * ra \<noteq> 0 \<and>
          j = Junction nm ra fl mfr rho up (mfr / (rho * ra))
                (fl * 0.5 * rho * (mfr / (rho * ra)) ^ 2)
                (fl * 0.5 * rho * (mfr / (rho * ra)) ^ 2)
                p (Some (p - fl * 0.5 * rho * (mfr / (rho * ra)) ^ 2)))"
  by (auto simp: Junction_new_def and_then_def truediv_def Let_def split: option.splits)

lemma Pipe_new_Inr:
  "Pipe_new nm len dh ff mfr rho ia oa up ra fd a1 a2 = Inr q \<longleftrightarrow>
     (\<exists>p sg. getattr_outlet_pressure up = Some p \<and> rho * ia \<noteq> 0 \<and> rho * oa \<noteq> 0 \<and>
          rho * ra \<noteq> 0 \<and> dh \<noteq> 0 \<and> direction_sign fd = Inr sg \<and>
          q = Pipe nm len dh ff mfr rho ia oa up ra fd a1 a2
                (mfr / (rho * ia)) (mfr / (rho * oa)) (mfr / (rho * ra))
                (ff * (len / dh) * (0.5 * rho * (mfr / (rho * ra)) ^ 2))
                (rho * GRAVITY * len * sg)
                (0.5 * rho * (a2 * (mfr / (rho * oa)) ^ 2 - a1 * (mfr / (rho * ia)) ^ 2))
                (ff * (len / dh) * (0.5 * rho * (mfr / (rho * ra)) ^ 2)
                   + rho * GRAVITY * len * sg
                   + 0.5 * rho * (a2 * (mfr / (rho * oa)) ^ 2 - a1 * (mfr / (rho * ia)) ^ 2))
                p
                (Some (p - (ff * (len / dh) * (0.5 * rho * (mfr / (rho * ra)) ^ 2)
                   + rho * GRAVITY * len * sg
                   + 0.5 * rho * (a2 * (mfr / (rho * oa)) ^ 2 - a1 * (mfr / (rho * ia)) ^ 2)))))"
  unfolding Pipe_new_def and_then_def truediv_def Let_def
  by (cases "getattr_outlet_pressure up"; cases "direction_sign fd"; simp; blast)

lemmas str_eval = lower_def strip_def isspace_def lower_char_def char_of_def bit_Suc_0_iff

lemma direction_sign_Inr:
  "direction_sign fd = Inr sg \<longleftrightarrow>
     (lower (strip fd) = ''up'' \<and> sg = 1) \<or> (lower (strip fd) = ''down'' \<and> sg = - 1)
     \<or> (lower (strip fd) = ''side'' \<and> sg = 0)"
  by (auto simp: direction_sign_def Let_def)

lemma direction_sign_Inl:
  "lower (strip fd) \<notin> {''up'', ''down'', ''side''} \<Longrightarrow>
     direction_sign fd = Inl (BadFlowDirection fd)"
  by (simp add: direction_sign_def Let_def)

lemma Pipe_new_bad_direction:
  assumes "direction_sign fd = Inl e"
  shows "\<exists>e'. Pipe_new nm len dh ff mfr rho ia oa up ra fd a1 a2 = Inl e'"
  using assms
  by (cases "Pipe_new nm len dh ff mfr rho ia oa up ra fd a1 a2") (auto simp: Pipe_new_Inr)

lemma Pipe_new_direction_error:
  assumes "getattr_outlet_pressure up \<noteq> None" "rho * ia \<noteq> 0" "rho * oa \<noteq> 0" "rho * ra \<noteq> 0"
    "dh \<noteq> 0" "direction_sign fd = Inl e"
  shows "Pipe_new nm len dh ff mfr rho ia oa up ra fd a1 a2 = Inl e"
  using assms by (auto simp: Pipe_new_def and_then_def truediv_def Let_def)

lemma direction_sign_UP: "direction_sign ''UP '' = Inr 1"
  by (simp add: direction_sign_def str_eval)

lemma direction_sign_side: "direction_sign ''side'' = Inr 0"
  by (simp add: direction_sign_def str_eval)

text \<open>
  White space around the direction and the case of its letters do not matter; the
  divisions do not depend on the direction.
\<close>

lemma isspace_lower_char: "isspace c \<Longrightarrow> lower_char c = c"
  by (auto simp: isspace_def lower_char_def Let_def)

lemma lower_no_space:
  assumes "lower s = w" and "list_all (\<lambda>c. \<not> isspace c) w"
  shows "list_all (\<lambda>c. \<not> isspace c) s"
proof -
  have "\<not> isspace c" if c: "c \<in> set s" for c
  proof
    assume sp: "isspace c"
    from c assms(1) have "lower_char c \<in> set w" by (auto simp: lower_def)
    with sp isspace_lower_char [OF sp] assms(2) show False by (auto simp: list_all_iff)
  qed
  then show ?thesis by (simp add: list_all_iff)
qed

lemma strip_padded:
  assumes "list_all isspace ws1" and "list_all isspace ws2"
    and "s \<noteq> []" and "list_all (\<lambda>c. \<not> isspace c) s"
  shows "strip (ws1 @ s @ ws2) = s"
proof -
  from assms(3,4) have h: "\<not> isspace (hd s)" and l: "\<not> isspace (last s)"
    by (auto simp: list_all_iff)
  from assms(1) have 1: "dropWhile isspace (ws1 @ s @ ws2) = dropWhile isspace (s @ ws2)"
    by (intro dropWhile_append2) (simp add: list_all_iff)
  from assms(3) h have 2: "dropWhile isspace (s @ ws2) = s @ ws2"
    by (cases s) simp_all
  from assms(2) have 3: "dropWhile isspace (rev ws2 @ rev s) = dropWhile isspace (rev s)"
    by (intro dropWhile_append2) (simp add: list_all_iff)
  from assms(3) l have 4: "dropWhile isspace (rev s) = rev s"
    by (cases "rev s") (auto simp: last_rev hd_rev dest: arg_cong [where f = hd])
  show ?thesis by (simp add: strip_def 1 2 3 4)
qed

lemma direction_sign_padded:
  assumes "list_all isspace ws1" and "list_all isspace ws2"
  shows "lower s = ''up'' \<Longrightarrow> direction_sign (ws1 @ s @ ws2) = Inr 1"
    and "lower s = ''down'' \<Longrightarrow> direction_sign (ws1 @ s @ ws2) = Inr (- 1)"
    and "lower s = ''side'' \<Longrightarrow> direction_sign (ws1 @ s @ ws2) = Inr 0"
proof -
  {
    fix w :: string assume w: "lower s = w" and ne: "w \<noteq> []"
      and ns: "list_all (\<lambda>c. \<not> isspace c) w"
    from w ne have "s \<noteq> []" by (auto simp: lower_def)
    from strip_padded [OF assms this lower_no_space [OF w ns]] w
    have "lower (strip (ws1 @ s @ ws2)) = w" by simp
  } note key = this
  {
    assume a: "lower s = ''up''"
    from key [OF a] show "direction_sign (ws1 @ s @ ws2) = Inr 1"
      by (simp add: direction_sign_def isspace_def)
  }
  {
    assume a: "lower s = ''down''"
    from key [OF a] show "direction_sign (ws1 @ s @ ws2) = Inr (- 1)"
      by (simp add: direction_sign_def isspace_def)
  }
  {
    assume a: "lower s = ''side''"
    from key [OF a] show "direction_sign (ws1 @ s @ ws2) = Inr 0"
      by (simp add: direction_sign_def isspace_def)
  }
qed

lemma Pipe_new_Inr_divisors:
  assumes "Pipe_new nm len dh ff mfr rho ia oa up ra fd0 a1 a2 = Inr q0"
  shows "getattr_outlet_pressure up \<noteq> None \<and> rho * ia \<noteq> 0 \<and> rho * oa \<noteq> 0 \<and> rho * ra \<noteq> 0
           \<and> dh \<noteq> 0"
  using assms by (auto simp: Pipe_new_Inr)

lemma Pipe_new_succeeds:
  assumes "getattr_outlet_pressure up = Some p" "rho * ia \<noteq> 0" "rho * oa \<noteq> 0" "rho * ra \<noteq> 0"
    "dh \<noteq> 0" "direction_sign fd = Inr sg"
  shows "\<exists>q. Pipe_new nm len dh ff mfr rho ia oa up ra fd a1 a2 = Inr q
           \<and> dp_gravity q = rho * 9.80665 * len * sg"
  using assms by (simp add: Pipe_new_def and_then_def truediv_def Let_def GRAVITY_def)

lemma Pipe_new_example:
  "\<exists>q. Pipe_new ''p'' 2 1 1 1 2 1 1 (Inlet ''in'' (Some 100) 1 2 300) 1 ''side'' 1 1 = Inr q"
  by (simp add: Pipe_new_def and_then_def truediv_def Let_def direction_sign_side)


subsection \<open>Element constructors\<close>

text \<open>
  C8. Constructing a Pipe or a Junction whose upstream element has no outlet pressure
  (\<^verbatim>\<open>None\<close>, or no such attribute) raises the \<^verbatim>\<open>ValueError\<close> of the precondition,
  whatever the other arguments are: the test is the first statement of \<^verbatim>\<open>compute\<close>, so
  no division is attempted, no flow direction is examined and no element results.
\<close>

theorem upstream_unset_fails:
  assumes "getattr_outlet_pressure up = None"
  shows "Pipe_new nm len dh ff mfr rho ia oa up ra fd a1 a2 = Inl UpstreamPressureUnset
       \<and> Junction_new nm' ra' fl mfr' rho' up = Inl UpstreamPressureUnset
       \<and> exc_class UpstreamPressureUnset = ValueError"
  using assms by (simp add: Pipe_new_def Junction_new_def)

theorem upstream_unset_fails_witness:
  "getattr_outlet_pressure (Inlet ''in'' None 2 0 300) = None
   \<and> Pipe_new ''p'' 1 0 1 2 0 0 0 (Inlet ''in'' None 2 0 300) 0 ''north'' 1 1
       = Inl UpstreamPressureUnset
   \<and> Junction_new ''j'' 0 1 2 0 (Inlet ''in'' None 2 0 300) = Inl UpstreamPressureUnset
   \<and> exc_class UpstreamPressureUnset = ValueError"
proof -
  have h: "getattr_outlet_pressure (Inlet ''in'' None 2 0 300) = None" by simp
  show ?thesis
    using h upstream_unset_fails [OF h, of "''p''" 1 0 1 2 0 0 0 0 "''north''" 1 1 "''j''" 0 1 2 0]
    by simp
qed

text \<open>
  C3. A Junction is constructed when the upstream pressure is set (and the divisor
  \<open>density * ref_area\<close> is not zero), and every constructed Junction keeps its arguments
  and has \<open>ref_velocity = mass_flow_rate / (density * ref_area)\<close>,
  \<open>pressure_drop = dp_loss = form_loss * 0.5 * density * ref_velocity\<^sup>2\<close>,
  \<open>inlet_pressure = upstream.outlet_pressure\<close> and
  \<open>outlet_pressure = inlet_pressure - form_loss * 0.5 * density * ref_velocity\<^sup>2\<close>.
\<close>

theorem Junction_compute_fields:
  "(getattr_outlet_pressure up \<noteq> None \<and> rho * ra \<noteq> 0
      \<longrightarrow> (\<exists>j. Junction_new nm ra fl mfr rho up = Inr j))
   \<and> (\<forall>j. Junction_new nm ra fl mfr rho up = Inr j \<longrightarrow>
         ref_area j = ra \<and> form_loss j = fl \<and> mass_flow_rate j = mfr \<and> density j = rho
         \<and> upstream j = up
         \<and> ref_velocity j = mass_flow_rate j / (density j * ref_area j)
         \<and> dp_loss j = form_loss j * 0.5 * density j * ref_velocity j ^ 2
         \<and> pressure_drop j = dp_loss j
         \<and> getattr_outlet_pressure (upstream j) = Some (inlet_pressure j)
         \<and> outlet_pressure j
             = Some (inlet_pressure j - form_loss j * 0.5 * density j * ref_velocity j ^ 2))"
proof (intro conjI allI impI)
  assume "getattr_outlet_pressure up \<noteq> None \<and> rho * ra \<noteq> 0"
  then show "\<exists>j. Junction_new nm ra fl mfr rho up = Inr j"
    by (auto simp: Junction_new_Inr)
next
  fix j assume "Junction_new nm ra fl mfr rho up = Inr j"
  then obtain p where p: "getattr_outlet_pressure up = Some p"
    and j: "j = Junction nm ra fl mfr rho up (mfr / (rho * ra))
                (fl * 0.5 * rho * (mfr / (rho * ra)) ^ 2)
                (fl * 0.5 * rho * (mfr / (rho * ra)) ^ 2)
                p (Some (p - fl * 0.5 * rho * (mfr / (rho * ra)) ^ 2))"
    unfolding Junction_new_Inr by blast
  show "ref_area j = ra" "form_loss j = fl" "mass_flow_rate j = mfr" "density j = rho"
    "upstream j = up" "ref_velocity j = mass_flow_rate j / (density j * ref_area j)"
    "dp_loss j = form_loss j * 0.5 * density j * ref_velocity j ^ 2"
    "pressure_drop j = dp_loss j"
    "getattr_outlet_pressure (upstream j) = Some (inlet_pressure j)"
    "outlet_pressure j
             = Some (inlet_pressure j - form_loss j * 0.5 * density j * ref_velocity j ^ 2)"
    by (simp_all add: j p)
qed

theorem Junction_compute_fields_witness:
  "\<exists>j. Junction_new ''J1'' (1/2) 2 3 2 (Inlet ''in'' (Some 100) 3 2 300) = Inr j
       \<and> ref_velocity j = 3 \<and> dp_loss j = 18 \<and> pressure_drop j = 18
       \<and> inlet_pressure j = 100 \<and> outlet_pressure j = Some 82"
proof -
  let ?up = "Inlet ''in'' (Some 100) 3 2 300"
  note T = Junction_compute_fields [of ?up 2 "1/2" "''J1''" 2 3]
  have "getattr_outlet_pressure ?up \<noteq> None \<and> (2::real) * (1/2) \<noteq> 0" by simp
  with T obtain j where j: "Junction_new ''J1'' (1/2) 2 3 2 ?up = Inr j" by blast
  from T j have a: "ref_area j = 1/2" and b: "form_loss j = 2" and c: "mass_flow_rate j = 3"
    and d: "density j = 2" and u: "upstream j = ?up"
    and e: "ref_velocity j = mass_flow_rate j / (density j * ref_area j)"
    and f: "dp_loss j = form_loss j * 0.5 * density j * ref_velocity j ^ 2"
    and g: "pressure_drop j = dp_loss j"
    and h: "getattr_outlet_pressure (upstream j) = Some (inlet_pressure j)"
    and i: "outlet_pressure j
             = Some (inlet_pressure j - form_loss j * 0.5 * density j * ref_velocity j ^ 2)"
    by blast+
  have v: "ref_velocity j = 3" unfolding e a c d by simp
  have l: "dp_loss j = 18" unfolding f b d v by simp
  have p: "inlet_pressure j = 100" using h unfolding u by simp
  have o: "outlet_pressure j = Some 82" unfolding i p b d v by simp
  show ?thesis using j v l g p o by (intro exI[of _ j]) simp
qed

text \<open>
  C2. A Pipe is constructed when the upstream pressure is set, the flow direction is valid
  and the four divisors are not zero, and every constructed Pipe keeps its arguments and
  has the three velocities \<open>mass_flow_rate / (density * area)\<close>, the friction loss
  \<open>friction_factor * (length / hydraulic_diameter) * 0.5 * density * ref_velocity\<^sup>2\<close>, the
  hydrostatic term \<open>density * 9.80665 * length * sign\<close> with the sign +1 when its direction
  normalizes to \<open>up\<close>, -1 for \<open>down\<close> and 0 for \<open>side\<close>, the kinetic term,
  \<open>pressure_drop\<close> their sum, \<open>inlet_pressure = upstream.outlet_pressure\<close> and
  \<open>outlet_pressure = inlet_pressure - pressure_drop\<close>.
\<close>

theorem Pipe_compute_fields:
  "(getattr_outlet_pressure up \<noteq> None \<and> rho * ia \<noteq> 0 \<and> rho * oa \<noteq> 0 \<and> rho * ra \<noteq> 0
      \<and> dh \<noteq> 0 \<and> lower (strip fd) \<in> {''up'', ''down'', ''side''}
      \<longrightarrow> (\<exists>q. Pipe_new nm len dh ff mfr rho ia oa up ra fd a1 a2 = Inr q))
   \<and> (\<forall>q. Pipe_new nm len dh ff mfr rho ia oa up ra fd a1 a2 = Inr q \<longrightarrow>
         length_p q = len \<and> hydraulic_diameter q = dh \<and> friction_factor q = ff
         \<and> mass_flow_rate q = mfr \<and> density q = rho \<and> inlet_area q = ia
         \<and> outlet_area q = oa \<and> upstream q = up \<and> ref_area q = ra
         \<and> flow_direction q = fd \<and> alpha1 q = a1 \<and> alpha2 q = a2
         \<and> inlet_velocity q = mass_flow_rate q / (density q * inlet_area q)
         \<and> outlet_velocity q = mass_flow_rate q / (density q * outlet_area q)
         \<and> ref_velocity q = mass_flow_rate q / (density q * ref_area q)
         \<and> dp_loss q = friction_factor q * (length_p q / hydraulic_diameter q)
                          * 0.5 * density q * ref_velocity q ^ 2
         \<and> (lower (strip (flow_direction q)) = ''up''
               \<and> dp_gravity q = density q * 9.80665 * length_p q * 1
             \<or> lower (strip (flow_direction q)) = ''down''
               \<and> dp_gravity q = density q * 9.80665 * length_p q * (- 1)
             \<or> lower (strip (flow_direction q)) = ''side''
               \<and> dp_gravity q = density q * 9.80665 * length_p q * 0)
         \<and> dp_accel q = 0.5 * density q
                          * (alpha2 q * outlet_velocity q ^ 2 - alpha1 q * inlet_velocity q ^ 2)
         \<and> pressure_drop q = dp_loss q + dp_gravity q + dp_accel q
         \<and> getattr_outlet_pressure (upstream q) = Some (inlet_pressure q)
         \<and> outlet_pressure q = Some (inlet_pressure q - pressure_drop q))"
proof (intro conjI allI impI)
  assume a: "getattr_outlet_pressure up \<noteq> None \<and> rho * ia \<noteq> 0 \<and> rho * oa \<noteq> 0 \<and> rho * ra \<noteq> 0
      \<and> dh \<noteq> 0 \<and> lower (strip fd) \<in> {''up'', ''down'', ''side''}"
  then have "\<exists>sg. direction_sign fd = Inr sg" by (auto simp: direction_sign_Inr)
  with a show "\<exists>q. Pipe_new nm len dh ff mfr rho ia oa up ra fd a1 a2 = Inr q"
    unfolding Pipe_new_Inr by blast
next
  fix q assume "Pipe_new nm len dh ff mfr rho ia oa up ra fd a1 a2 = Inr q"
  then obtain p sg where p: "getattr_outlet_pressure up = Some p"
    and sg: "direction_sign fd = Inr sg"
    and q: "q = Pipe nm len dh ff mfr rho ia oa up ra fd a1 a2
                (mfr / (rho * ia)) (mfr / (rho * oa)) (mfr / (rho * ra))
                (ff * (len / dh) * (0.5 * rho * (mfr / (rho * ra)) ^ 2))
                (rho * GRAVITY * len * sg)
                (0.5 * rho * (a2 * (mfr / (rho * oa)) ^ 2 - a1 * (mfr / (rho * ia)) ^ 2))
                (ff * (len / dh) * (0.5 * rho * (mfr / (rho * ra)) ^ 2)
                   + rho * GRAVITY * len * sg
                   + 0.5 * rho * (a2 * (mfr / (rho * oa)) ^ 2 - a1 * (mfr / (rho * ia)) ^ 2))
                p
                (Some (p - (ff * (len / dh) * (0.5 * rho * (mfr / (rho * ra)) ^ 2)
                   + rho * GRAVITY * len * sg
                   + 0.5 * rho * (a2 * (mfr / (rho * oa)) ^ 2 - a1 * (mfr / (rho * ia)) ^ 2))))"
    unfolding Pipe_new_Inr by blast
  show "length_p q = len" "hydraulic_diameter q = dh" "friction_factor q = ff"
    "mass_flow_rate q = mfr" "density q = rho" "inlet_area q = ia"
    "outlet_area q = oa" "upstream q = up" "ref_area q = ra"
    "flow_direction q = fd" "alpha1 q = a1" "alpha2 q = a2"
    "inlet_velocity q = mass_flow_rate q / (density q * inlet_area q)"
    "outlet_velocity q = mass_flow_rate q / (density q * outlet_area q)"
    "ref_velocity q = mass_flow_rate q / (density q * ref_area q)"
    "dp_accel q = 0.5 * density q
                          * (alpha2 q * outlet_velocity q ^ 2 - alpha1 q * inlet_velocity q ^ 2)"
    "pressure_drop q = dp_loss q + dp_gravity q + dp_accel q"
    "getattr_outlet_pressure (upstream q) = Some (inlet_pressure q)"
    "outlet_pressure q = Some (inlet_pressure q - pressure_drop q)"
    by (simp_all add: q p)
  show "dp_loss q = friction_factor q * (length_p q / hydraulic_diameter q)
                          * 0.5 * density q * ref_velocity q ^ 2"
    by (simp add: q)
  from sg have "(lower (strip fd) = ''up'' \<and> sg = 1) \<or> (lower (strip fd) = ''down'' \<and> sg = - 1)
      \<or> (lower (strip fd) = ''side'' \<and> sg = 0)" by (simp only: direction_sign_Inr)
  then show "lower (strip (flow_direction q)) = ''up''
               \<and> dp_gravity q = density q * 9.80665 * length_p q * 1
             \<or> lower (strip (flow_direction q)) = ''down''
               \<and> dp_gravity q = density q * 9.80665 * length_p q * (- 1)
             \<or> lower (strip (flow_direction q)) = ''side''
               \<and> dp_gravity q = density q * 9.80665 * length_p q * 0"
    by (auto simp: q GRAVITY_def)
qed

theorem Pipe_compute_fields_witness:
  "(\<exists>q. Pipe_new ''P1'' 2 1 (1/2) 4 2 1 2 (Inlet ''in'' (Some 1000) 4 2 300) 1 ''Side'' 1 1 = Inr q
       \<and> inlet_velocity q = 2 \<and> outlet_velocity q = 1 \<and> ref_velocity q = 2
       \<and> dp_loss q = 4 \<and> dp_gravity q = 0 \<and> dp_accel q = - 3
       \<and> pressure_drop q = 1
       \<and> inlet_pressure q = 1000 \<and> outlet_pressure q = Some 999)
   \<and> (\<exists>q. Pipe_new ''P1'' 2 1 (1/2) 4 2 1 2 (Inlet ''in'' (Some 1000) 4 2 300) 1 ''UP '' 1 1 = Inr q
       \<and> dp_gravity q = 39.2266)
   \<and> (\<exists>q. Pipe_new ''P1'' 2 1 (1/2) 4 2 1 2 (Inlet ''in'' (Some 1000) 4 2 300) 1 ''down'' 1 1 = Inr q
       \<and> dp_gravity q = - 39.2266)"
proof -
  let ?up = "Inlet ''in'' (Some 1000) 4 2 300"
  have ok: "getattr_outlet_pressure ?up \<noteq> None \<and> (2::real) * 1 \<noteq> 0 \<and> (2::real) * 2 \<noteq> 0
      \<and> (2::real) * 1 \<noteq> 0 \<and> (1::real) \<noteq> 0" by simp
  have s: "lower (strip ''Side'') = ''side''" and u: "lower (strip ''UP '') = ''up''"
    and d: "lower (strip ''down'') = ''down''" by (simp_all add: str_eval)
  \<comment> \<open>a horizontal pipe, all fields\<close>
  note T = Pipe_compute_fields [of ?up 2 1 2 1 1 "''Side''" "''P1''" 2 "1/2" 4 1 1]
  from T ok s obtain q where q: "Pipe_new ''P1'' 2 1 (1/2) 4 2 1 2 ?up 1 ''Side'' 1 1 = Inr q"
    by auto
  from T q have len: "length_p q = 2" and dh: "hydraulic_diameter q = 1"
    and ff: "friction_factor q = 1/2" and mfr: "mass_flow_rate q = 4" and rho: "density q = 2"
    and ia: "inlet_area q = 1" and oa: "outlet_area q = 2" and up: "upstream q = ?up"
    and ra: "ref_area q = 1" and fd: "flow_direction q = ''Side''"
    and a1: "alpha1 q = 1" and a2: "alpha2 q = 1"
    and vi: "inlet_velocity q = mass_flow_rate q / (density q * inlet_area q)"
    and vo: "outlet_velocity q = mass_flow_rate q / (density q * outlet_area q)"
    and vr: "ref_velocity q = mass_flow_rate q / (density q * ref_area q)"
    and dl: "dp_loss q = friction_factor q * (length_p q / hydraulic_diameter q)
                          * 0.5 * density q * ref_velocity q ^ 2"
    and dg: "lower (strip (flow_direction q)) = ''up''
               \<and> dp_gravity q = density q * 9.80665 * length_p q * 1
             \<or> lower (strip (flow_direction q)) = ''down''
               \<and> dp_gravity q = density q * 9.80665 * length_p q * (- 1)
             \<or> lower (strip (flow_direction q)) = ''side''
               \<and> dp_gravity q = density q * 9.80665 * length_p q * 0"
    and da: "dp_accel q = 0.5 * density q
                          * (alpha2 q * outlet_velocity q ^ 2 - alpha1 q * inlet_velocity q ^ 2)"
    and pd: "pressure_drop q = dp_loss q + dp_gravity q + dp_accel q"
    and pi: "getattr_outlet_pressure (upstream q) = Some (inlet_pressure q)"
    and po: "outlet_pressure q = Some (inlet_pressure q - pressure_drop q)"
    by blast+
  have 1: "inlet_velocity q = 2" unfolding vi mfr rho ia by simp
  have 2: "outlet_velocity q = 1" unfolding vo mfr rho oa by simp
  have 3: "ref_velocity q = 2" unfolding vr mfr rho ra by simp
  have 4: "dp_loss q = 4" unfolding dl ff len dh rho 3 by simp
  have 5: "dp_gravity q = 0" using dg unfolding fd s by simp
  have 6: "dp_accel q = - 3" unfolding da rho a1 a2 1 2 by simp
  have 7: "pressure_drop q = 1" unfolding pd 4 5 6 by simp
  have 8: "inlet_pressure q = 1000" using pi unfolding up by simp
  have 9: "outlet_pressure q = Some 999" unfolding po 7 8 by simp
  from q 1 2 3 4 5 6 7 8 9
  have A: "\<exists>q. Pipe_new ''P1'' 2 1 (1/2) 4 2 1 2 ?up 1 ''Side'' 1 1 = Inr q
       \<and> inlet_velocity q = 2 \<and> outlet_velocity q = 1 \<and> ref_velocity q = 2
       \<and> dp_loss q = 4 \<and> dp_gravity q = 0 \<and> dp_accel q = - 3
       \<and> pressure_drop q = 1
       \<and> inlet_pressure q = 1000 \<and> outlet_pressure q = Some 999"
    by (intro exI [of _ q]) simp
  \<comment> \<open>the same pipe upwards\<close>
  note U = Pipe_compute_fields [of ?up 2 1 2 1 1 "''UP ''" "''P1''" 2 "1/2" 4 1 1]
  from U ok u obtain qu where
    qu: "Pipe_new ''P1'' 2 1 (1/2) 4 2 1 2 ?up 1 ''UP '' 1 1 = Inr qu" by auto
  from U qu have "length_p qu = 2" "density qu = 2" "flow_direction qu = ''UP ''"
    "lower (strip (flow_direction qu)) = ''up''
               \<and> dp_gravity qu = density qu * 9.80665 * length_p qu * 1
             \<or> lower (strip (flow_direction qu)) = ''down''
               \<and> dp_gravity qu = density qu * 9.80665 * length_p qu * (- 1)
             \<or> lower (strip (flow_direction qu)) = ''side''
               \<and> dp_gravity qu = density qu * 9.80665 * length_p qu * 0"
    by blast+
  then have "dp_gravity qu = 39.2266" by (simp add: u)
  with qu have B: "\<exists>q. Pipe_new ''P1'' 2 1 (1/2) 4 2 1 2 ?up 1 ''UP '' 1 1 = Inr q
       \<and> dp_gravity q = 39.2266" by blast
  \<comment> \<open>and downwards\<close>
  note D = Pipe_compute_fields [of ?up 2 1 2 1 1 "''down''" "''P1''" 2 "1/2" 4 1 1]
  from D ok d obtain qd where
    qd: "Pipe_new ''P1'' 2 1 (1/2) 4 2 1 2 ?up 1 ''down'' 1 1 = Inr qd" by auto
  from D qd have "length_p qd = 2" "density qd = 2" "flow_direction qd = ''down''"
    "lower (strip (flow_direction qd)) = ''up''
               \<and> dp_gravity qd = density qd * 9.80665 * length_p qd * 1
             \<or> lower (strip (flow_direction qd)) = ''down''
               \<and> dp_gravity qd = density qd * 9.80665 * length_p qd * (- 1)
             \<or> lower (strip (flow_direction qd)) = ''side''
               \<and> dp_gravity qd = density qd * 9.80665 * length_p qd * 0"
    by blast+
  then have "dp_gravity qd = - 39.2266" by (simp add: d)
  with qd have C: "\<exists>q. Pipe_new ''P1'' 2 1 (1/2) 4 2 1 2 ?up 1 ''down'' 1 1 = Inr q
       \<and> dp_gravity q = - 39.2266" by blast
  from A B C show ?thesis by blast
qed

text \<open>
  C9 (as amended). \<^verbatim>\<open>flow_direction.strip().lower()\<close> decides the hydrostatic sign:
  \<open>up\<close>, \<open>down\<close>, \<open>side\<close> give +1, -1, 0 and nothing else gives a sign, whatever white
  space surrounds the word and whatever the case of its letters, so \<^verbatim>\<open>"UP "\<close>,
  \<^verbatim>\<open>"down"\<close>, \<^verbatim>\<open>"Side"\<close> give +1, -1, 0. A direction that does not normalize to one of
  the three never yields a Pipe. The direction is examined after the upstream test, the
  velocities and the friction term, and what these raise comes first: when the numbers
  are in range (\<open>pipe_in_range\<close>) and the other arguments construct a Pipe with some
  direction, they construct one with every valid direction, with
  \<open>dp_gravity = density * 9.80665 * length * sign\<close>, and raise the \<^verbatim>\<open>ValueError\<close> of the
  flow direction with every invalid one.
\<close>

theorem flow_direction_sign:
  "(direction_sign fd = Inr sg \<longleftrightarrow>
      (lower (strip fd) = ''up'' \<and> sg = 1) \<or> (lower (strip fd) = ''down'' \<and> sg = - 1)
      \<or> (lower (strip fd) = ''side'' \<and> sg = 0))
   \<and> direction_sign ''UP '' = Inr 1 \<and> direction_sign ''down'' = Inr (- 1)
   \<and> direction_sign ''Side'' = Inr 0
   \<and> (list_all isspace ws1 \<and> list_all isspace ws2 \<longrightarrow>
        (lower s = ''up'' \<longrightarrow> direction_sign (ws1 @ s @ ws2) = Inr 1)
        \<and> (lower s = ''down'' \<longrightarrow> direction_sign (ws1 @ s @ ws2) = Inr (- 1))
        \<and> (lower s = ''side'' \<longrightarrow> direction_sign (ws1 @ s @ ws2) = Inr 0))
   \<and> (lower (strip fd) \<notin> {''up'', ''down'', ''side''}
        \<longrightarrow> (\<exists>e. Pipe_new nm len dh ff mfr rho ia oa up ra fd a1 a2 = Inl e))
   \<and> (pipe_in_range len dh ff mfr rho ia oa up ra a1 a2
        \<and> (\<exists>fd0 q0. Pipe_new nm len dh ff mfr rho ia oa up ra fd0 a1 a2 = Inr q0) \<longrightarrow>
        (direction_sign fd = Inr sg \<longrightarrow>
           (\<exists>q. Pipe_new nm len dh ff mfr rho ia oa up ra fd a1 a2 = Inr q
                \<and> dp_gravity q = rho * 9.80665 * len * sg))
        \<and> (lower (strip fd) \<notin> {''up'', ''down'', ''side''} \<longrightarrow>
             Pipe_new nm len dh ff mfr rho ia oa up ra fd a1 a2 = Inl (BadFlowDirection fd)
             \<and> exc_class (BadFlowDirection fd) = ValueError))"
proof (intro conjI impI; (elim conjE exE)?)
  show "direction_sign fd = Inr sg \<longleftrightarrow>
      (lower (strip fd) = ''up'' \<and> sg = 1) \<or> (lower (strip fd) = ''down'' \<and> sg = - 1)
      \<or> (lower (strip fd) = ''side'' \<and> sg = 0)"
    by (rule direction_sign_Inr)
  show "direction_sign ''UP '' = Inr 1" by (simp add: direction_sign_def str_eval)
  show "direction_sign ''down'' = Inr (- 1)" by (simp add: direction_sign_def str_eval)
  show "direction_sign ''Side'' = Inr 0" by (simp add: direction_sign_def str_eval)
next
  assume "list_all isspace ws1" "list_all isspace ws2" "lower s = ''up''"
  then show "direction_sign (ws1 @ s @ ws2) = Inr 1" by (rule direction_sign_padded(1))
next
  assume "list_all isspace ws1" "list_all isspace ws2" "lower s = ''down''"
  then show "direction_sign (ws1 @ s @ ws2) = Inr (- 1)" by (rule direction_sign_padded(2))
next
  assume "list_all isspace ws1" "list_all isspace ws2" "lower s = ''side''"
  then show "direction_sign (ws1 @ s @ ws2) = Inr 0" by (rule direction_sign_padded(3))
next
  assume "lower (strip fd) \<notin> {''up'', ''down'', ''side''}"
  then show "\<exists>e. Pipe_new nm len dh ff mfr rho ia oa up ra fd a1 a2 = Inl e"
    using Pipe_new_bad_direction direction_sign_Inl by blast
next
  fix fd0 q0
  assume c: "Pipe_new nm len dh ff mfr rho ia oa up ra fd0 a1 a2 = Inr q0"
    and sg: "direction_sign fd = Inr sg"
  note ok = Pipe_new_Inr_divisors [OF c]
  then obtain p where "getattr_outlet_pressure up = Some p" by auto
  from Pipe_new_succeeds [OF this _ _ _ _ sg] ok
  show "\<exists>q. Pipe_new nm len dh ff mfr rho ia oa up ra fd a1 a2 = Inr q
                \<and> dp_gravity q = rho * 9.80665 * len * sg" by blast
next
  fix fd0 q0
  assume c: "Pipe_new nm len dh ff mfr rho ia oa up ra fd0 a1 a2 = Inr q0"
    and bad: "lower (strip fd) \<notin> {''up'', ''down'', ''side''}"
  note ok = Pipe_new_Inr_divisors [OF c]
  show "Pipe_new nm len dh ff mfr rho ia oa up ra fd a1 a2 = Inl (BadFlowDirection fd)"
    using ok direction_sign_Inl [OF bad] by (intro Pipe_new_direction_error) simp_all
next
  show "exc_class (BadFlowDirection fd) = ValueError" by simp
qed

theorem flow_direction_sign_witness:
  "(\<exists>q. Pipe_new ''p'' 2 1 1 1 2 1 1 (Inlet ''in'' (Some 100) 1 2 300) 1 ''down'' 1 1 = Inr q
        \<and> dp_gravity q = - 39.2266)
   \<and> Pipe_new ''p'' 2 1 1 1 2 1 1 (Inlet ''in'' (Some 100) 1 2 300) 1 ''north'' 1 1
       = Inl (BadFlowDirection ''north'')
   \<and> direction_sign ([CHR 0x09, CHR '' ''] @ ''dOwN'' @ [CHR 0x0A]) = Inr (- 1)"
proof -
  let ?up = "Inlet ''in'' (Some 100) 1 2 300"
  have "pipe_in_range 2 1 1 1 2 1 1 ?up 1 1 1"
    by (simp add: pipe_in_range_def velocity_in_range_def double_range_def power2_eq_square)
  then have ok: "pipe_in_range 2 1 1 1 2 1 1 ?up 1 1 1
      \<and> (\<exists>fd0 q0. Pipe_new ''p'' 2 1 1 1 2 1 1 ?up 1 fd0 1 1 = Inr q0)"
    using Pipe_new_example by blast
  note A = flow_direction_sign [of "''down''" "- 1" "[CHR 0x09, CHR '' '']" "[CHR 0x0A]"
      "''dOwN''" "''p''" 2 1 1 1 2 1 1 ?up 1 1 1]
  note B = flow_direction_sign [of "''north''" 0 "[]" "[]" "''''" "''p''" 2 1 1 1 2 1 1 ?up 1 1 1]
  have d: "direction_sign ''down'' = Inr (- 1)" using A by blast
  have n: "lower (strip ''north'') \<notin> {''up'', ''down'', ''side''}" by (simp add: str_eval)
  have ws: "list_all isspace [CHR 0x09, CHR '' ''] \<and> list_all isspace [CHR 0x0A]"
    by (simp add: isspace_def)
  have lo: "lower ''dOwN'' = ''down''" by (simp add: str_eval)
  from A ok d have 1: "\<exists>q. Pipe_new ''p'' 2 1 1 1 2 1 1 ?up 1 ''down'' 1 1 = Inr q
        \<and> dp_gravity q = 2 * 9.80665 * 2 * (- 1)" by blast
  from B ok n have 2: "Pipe_new ''p'' 2 1 1 1 2 1 1 ?up 1 ''north'' 1 1
       = Inl (BadFlowDirection ''north'')" by blast
  from A ws lo have 3: "direction_sign ([CHR 0x09, CHR '' ''] @ ''dOwN'' @ [CHR 0x0A]) = Inr (- 1)"
    by blast
  from 1 2 3 show ?thesis by simp
qed

theorem flow_direction_error_counterexample:
  "lower (strip ''north'') \<notin> {''up'', ''down'', ''side''}
   \<and> getattr_outlet_pressure (Inlet ''in'' (Some 100) 1 0 300) = Some 100
   \<and> Pipe_new ''p'' 2 1 1 1 0 1 1 (Inlet ''in'' (Some 100) 1 0 300) 1 ''north'' 1 1
       = Inl DivisionByZero
   \<and> exc_class DivisionByZero \<noteq> ValueError"
  by (simp add: str_eval Pipe_new_def and_then_def truediv_def)




subsection \<open>Geometry and loss libraries\<close>

text \<open>
  C4. The function registered as \<^verbatim>\<open>hydraulic_diameter_annulus\<close> returns
  \<open>pi * (D_outer + D_inner)\<close>, the wetted perimeter of the annulus, as its docstring says,
  and not the hydraulic diameter: for \<open>D_outer = 2\<close>, \<open>D_inner = 1\<close> the registry call
  gives \<open>3 * pi\<close>, where four times the flow area over the wetted perimeter, and the
  sibling \<^verbatim>\<open>hydraulic_diameter_annulus_concentric\<close>, give \<open>D_outer - D_inner = 1\<close>.
\<close>

theorem hydraulic_diameter_annulus_returns_perimeter:
  "and_then (getitem GEOM_REGISTRY ''hydraulic_diameter_annulus'')
     (\<lambda>f. call f (Some [(''D_outer'', PNum 2), (''D_inner'', PNum 1)])) = Inr (PNum (3 * pi))
   \<and> 3 * pi \<noteq> (2 - 1 :: real)
   \<and> 4 * area_annulus 2 1 / (pi * (2 + 1)) = 2 - 1
   \<and> hydraulic_diameter_annulus_concentric 2 1 = 2 - 1"
proof -
  have "and_then (getitem GEOM_REGISTRY ''hydraulic_diameter_annulus'')
     (\<lambda>f. call f (Some [(''D_outer'', PNum 2), (''D_inner'', PNum 1)])) = Inr (PNum (3 * pi))"
    by (simp add: GEOM_REGISTRY_def getitem_def and_then_def call_def arg_def number_def
        hydraulic_diameter_annulus_def)
  moreover have "3 * pi \<noteq> (2 - 1 :: real)" using pi_ge_two by simp
  moreover have "4 * area_annulus 2 1 / (pi * (2 + 1)) = 2 - 1"
    by (simp add: area_annulus_def)
  moreover have "hydraulic_diameter_annulus_concentric 2 1 = 2 - 1"
    by (simp add: hydraulic_diameter_annulus_concentric_def)
  ultimately show ?thesis by blast
qed

text \<open>
  C6. \<^verbatim>\<open>area_annulus\<close> and \<^verbatim>\<open>sudden_expansion\<close> test none of their arguments: with the
  diameters inverted \<^verbatim>\<open>area_annulus\<close> returns a negative area, with a negative inlet area
  \<^verbatim>\<open>sudden_expansion\<close> returns a coefficient, and with a zero outlet area it raises
  \<^verbatim>\<open>ZeroDivisionError\<close>, not \<^verbatim>\<open>ValueError\<close>; the sibling \<^verbatim>\<open>sudden_contraction\<close> rejects
  the same negative area.
\<close>

theorem area_annulus_sudden_expansion_unvalidated:
  "and_then (getitem GEOM_REGISTRY ''area_annulus'')
     (\<lambda>f. call f (Some [(''D_outer'', PNum 1), (''D_inner'', PNum 2)]))
     = Inr (PNum (- (3 * pi / 4)))
   \<and> - (3 * pi / 4) < 0
   \<and> and_then (getitem LOSS_REGISTRY ''sudden_expansion'')
       (\<lambda>f. call f (Some [(''inlet_area'', PNum (- 1)), (''outlet_area'', PNum 1)]))
       = Inr (PNum 4)
   \<and> and_then (getitem LOSS_REGISTRY ''sudden_expansion'')
       (\<lambda>f. call f (Some [(''inlet_area'', PNum 1), (''outlet_area'', PNum 0)]))
       = Inl DivisionByZero
   \<and> exc_class DivisionByZero \<noteq> ValueError
   \<and> and_then (getitem LOSS_REGISTRY ''sudden_contraction'')
       (\<lambda>f. call f (Some [(''inlet_area'', PNum (- 1)), (''outlet_area'', PNum 1)]))
       = Inl (InvalidArgument ''Areas must be positive.'')"
proof -
  have 1: "and_then (getitem GEOM_REGISTRY ''area_annulus'')
     (\<lambda>f. call f (Some [(''D_outer'', PNum 1), (''D_inner'', PNum 2)]))
     = Inr (PNum (- (3 * pi / 4)))"
    by (simp add: GEOM_REGISTRY_def getitem_def and_then_def call_def arg_def number_def
        area_annulus_def)
  have 2: "- (3 * pi / 4) < 0" using pi_gt_zero by simp
  have 3: "and_then (getitem LOSS_REGISTRY ''sudden_expansion'')
       (\<lambda>f. call f (Some [(''inlet_area'', PNum (- 1)), (''outlet_area'', PNum 1)]))
       = Inr (PNum 4)"
    by (simp add: LOSS_REGISTRY_def getitem_def and_then_def call_def arg_def number_def
        sudden_expansion_def truediv_def)
  have 4: "and_then (getitem LOSS_REGISTRY ''sudden_expansion'')
       (\<lambda>f. call f (Some [(''inlet_area'', PNum 1), (''outlet_area'', PNum 0)]))
       = Inl DivisionByZero"
    by (simp add: LOSS_REGISTRY_def getitem_def and_then_def call_def arg_def number_def
        sudden_expansion_def truediv_def)
  have 5: "and_then (getitem LOSS_REGISTRY ''sudden_contraction'')
       (\<lambda>f. call f (Some [(''inlet_area'', PNum (- 1)), (''outlet_area'', PNum 1)]))
       = Inl (InvalidArgument ''Areas must be positive.'')"
    by (simp add: LOSS_REGISTRY_def getitem_def and_then_def call_def arg_def number_def
        sudden_contraction_def)
  from 1 2 3 4 5 show ?thesis by simp
qed

subsection \<open>The builder: evaluation and the results of its steps\<close>

lemmas build_defs = build_network_def build_element_def materialize_def setitem2_def
  getitem_def getkey_def and_then_def resolve_refs_def is_ref_def ref_key_def call_def arg_def
  value_arg_def number_def
  GEOM_REGISTRY_def LOSS_REGISTRY_def last_element_def inlet_attr_def truediv_def
  Pipe_of_values_def Junction_of_values_def Pipe_new_def Junction_new_def

lemmas ex_defs = ex_inputs_def ex_inlet_def ex_pipe_def ex_junction_def ex_outlet_def

lemma build_ex_inputs:
  "\<exists>e0 e1 e2 e3. build_network ex_inputs = Inr (Network ''n'' [e0, e1, e2, e3])
      \<and> is_Junction e2 \<and> inlet_pressure e2 = 499999.8"
  by (simp add: ex_defs build_defs Let_def sudden_expansion_def hydraulic_diameter_circle_def
      direction_sign_side)

lemma and_then_Inr: "and_then r f = Inr y \<longleftrightarrow> (\<exists>x. r = Inr x \<and> f x = Inr y)"
  by (cases r) (simp_all add: and_then_def)

lemma last_element_Inr: "last_element nl = Inr up \<longleftrightarrow> nl \<noteq> [] \<and> up = last nl"
  by (auto simp: last_element_def)

lemma inlet_attr_Inr: "inlet_attr ip a sel = Inr x \<longleftrightarrow> (\<exists>i. ip = Some i \<and> x = sel i)"
  by (cases ip) (auto simp: inlet_attr_def)

lemma build_element_Inr:
  assumes "build_element sc nl ip = Inr el"
  shows "nl \<noteq> [] \<and> ip \<noteq> None \<and> (is_Pipe el \<or> is_Junction el) \<and> upstream el = last nl
       \<and> getattr_outlet_pressure (last nl) = Some (inlet_pressure el)"
proof (cases "sc_type sc = ''pipe''")
  case True
  with assms obtain len_v dh_v ff_v mfr rho ia_v oa_v up ra_v fd_v where
    up: "last_element nl = Inr up" and ia: "inlet_attr ip ''mass_flow_rate'' mass_flow_rate = Inr mfr"
    and V: "Pipe_of_values (sc_name sc) len_v dh_v ff_v mfr rho ia_v oa_v up ra_v fd_v = Inr el"
    by (auto simp: build_element_def and_then_Inr Let_def)
  from V obtain len dh ff ia oa ra fd where
    P: "Pipe_new (sc_name sc) len dh ff mfr rho ia oa up ra fd 1 1 = Inr el"
    by (auto simp: Pipe_of_values_def and_then_Inr split: if_splits)
  from P show ?thesis using up ia
    by (auto simp: Pipe_new_Inr last_element_Inr inlet_attr_Inr)
next
  case False
  with assms obtain ra_v fl_v mfr0 mfr rho up where
    up: "last_element nl = Inr up" and ia: "inlet_attr ip ''mass_flow_rate'' mass_flow_rate = Inr mfr0"
    and V: "Junction_of_values (sc_name sc) ra_v fl_v mfr rho up = Inr el"
    by (auto simp: build_element_def and_then_Inr Let_def)
  from V obtain ra fl where J: "Junction_new (sc_name sc) ra fl mfr rho up = Inr el"
    by (auto simp: Junction_of_values_def and_then_Inr split: if_splits)
  from J show ?thesis using up ia
    by (auto simp: Junction_new_Inr last_element_Inr inlet_attr_Inr)
qed

lemma chain_ok_snoc:
  assumes "chain_ok nl"
    and "is_Pipe el \<or> is_Junction el \<Longrightarrow> nl \<noteq> [] \<and> upstream el = last nl
       \<and> getattr_outlet_pressure (last nl) = Some (inlet_pressure el)"
  shows "chain_ok (nl @ [el])"
  unfolding chain_ok_def
proof (intro allI impI)
  fix i assume i: "0 < i \<and> i < length (nl @ [el])
      \<and> (is_Pipe ((nl @ [el]) ! i) \<or> is_Junction ((nl @ [el]) ! i))"
  show "upstream ((nl @ [el]) ! i) = (nl @ [el]) ! (i - 1)
      \<and> getattr_outlet_pressure ((nl @ [el]) ! (i - 1)) = Some (inlet_pressure ((nl @ [el]) ! i))"
  proof (cases "i < length nl")
    case True
    with i assms(1) show ?thesis by (auto simp: chain_ok_def nth_append)
  next
    case False
    with i have il: "i = length nl" by simp
    with i have "is_Pipe el \<or> is_Junction el" by simp
    from assms(2)[OF this] have ne: "nl \<noteq> []" and u: "upstream el = last nl"
      and g: "getattr_outlet_pressure (last nl) = Some (inlet_pressure el)" by simp_all
    from ne have "last nl = nl ! (length nl - 1)" by (rule last_conv_nth)
    with il ne u g show ?thesis by (simp add: nth_append)
  qed
qed

lemma build_loop_chain_ok:
  "build_loop n idx ds nl ip = Inr nl' \<Longrightarrow> chain_ok nl \<Longrightarrow> chain_ok nl'"
proof (induction ds arbitrary: idx nl ip)
  case Nil
  then show ?case by simp
next
  case (Cons sc rest)
  show ?case
  proof (cases "sc_type sc = ''inlet''")
    case True
    with Cons.prems(1) obtain fl :: flow_spec where
      r: "build_loop n (idx + 1) rest
            (nl @ [Inlet (sc_name sc) (flow_pressure fl) (flow_mass_flow_rate fl)
                     (flow_density fl) (flow_temperature fl)])
            (Some (Inlet (sc_name sc) (flow_pressure fl) (flow_mass_flow_rate fl)
                     (flow_density fl) (flow_temperature fl))) = Inr nl'"
      by (auto simp: and_then_Inr Let_def split: if_splits)
    show ?thesis
      by (rule Cons.IH [OF r]) (rule chain_ok_snoc [OF Cons.prems(2)], simp)
  next
    case ni: False
    show ?thesis
    proof (cases "sc_type sc = ''outlet''")
      case True
      with ni Cons.prems(1) obtain l where "nl' = nl @ [Outlet (sc_name sc) l]"
        by (auto simp: and_then_Inr split: if_splits)
      then show ?thesis using chain_ok_snoc [OF Cons.prems(2), of "Outlet (sc_name sc) l"]
        by simp
    next
      case False
      with ni Cons.prems(1) obtain el where el: "build_element sc nl ip = Inr el"
        and r: "build_loop n (idx + 1) rest (nl @ [el]) ip = Inr nl'"
        by (auto simp: and_then_Inr)
      show ?thesis
        by (rule Cons.IH [OF r]) (rule chain_ok_snoc [OF Cons.prems(2)],
            use build_element_Inr [OF el] in blast)
    qed
  qed
qed

subsection \<open>The chain invariant of a built network\<close>

text \<open>
  C1. In every network that \<^verbatim>\<open>build_network\<close> returns, a Pipe or Junction at a position
  \<open>i > 0\<close> has the element at position \<open>i - 1\<close> as its upstream, and its inlet pressure is
  that element's outlet pressure: the builder passes \<^verbatim>\<open>network_list[-1]\<close> as upstream and
  the constructor copies its outlet pressure.
\<close>

theorem chain_invariant:
  assumes "build_network inp = Inr net"
    and "0 < i" and "i < length (network_list net)"
    and "is_Pipe (network_list net ! i) \<or> is_Junction (network_list net ! i)"
  shows "upstream (network_list net ! i) = network_list net ! (i - 1)
       \<and> outlet_pressure (network_list net ! (i - 1))
           = Some (inlet_pressure (network_list net ! i))"
proof -
  from assms(1) obtain nl where
    nl: "build_loop (int (length (inputs_network inp))) 0 (inputs_network inp) [] None = Inr nl"
    and net: "net = Network (inputs_name inp) nl"
    by (auto simp: build_network_def and_then_Inr)
  have "chain_ok []" by (simp add: chain_ok_def)
  from build_loop_chain_ok [OF nl this] have "chain_ok nl" .
  with assms(2-4) net have u: "upstream (nl ! i) = nl ! (i - 1)"
    and g: "getattr_outlet_pressure (nl ! (i - 1)) = Some (inlet_pressure (nl ! i))"
    by (simp_all add: chain_ok_def)
  from g have "outlet_pressure (nl ! (i - 1)) = Some (inlet_pressure (nl ! i))"
    by (cases "nl ! (i - 1)") simp_all
  with u net show ?thesis by simp
qed

theorem chain_invariant_witness:
  "\<exists>net. build_network ex_inputs = Inr net
      \<and> length (network_list net) = 4
      \<and> is_Junction (network_list net ! 2)
      \<and> upstream (network_list net ! 2) = network_list net ! 1
      \<and> outlet_pressure (network_list net ! 1) = Some 499999.8"
proof -
  from build_ex_inputs obtain e0 e1 e2 e3 where
    b: "build_network ex_inputs = Inr (Network ''n'' [e0, e1, e2, e3])"
    and j: "is_Junction e2" and p: "inlet_pressure e2 = 499999.8" by blast
  let ?net = "Network ''n'' [e0, e1, e2, e3]"
  have 1: "(0::nat) < 2" and 2: "2 < length (network_list ?net)"
    and 3: "is_Pipe (network_list ?net ! 2) \<or> is_Junction (network_list ?net ! 2)"
    using j by simp_all
  from chain_invariant [OF b 1 2 3] j p b show ?thesis
    by (intro exI [of _ ?net]) simp
qed

subsection \<open>Order of the descriptors\<close>

text \<open>
  The loop raises at the first descriptor that fails. A descriptor that is neither
  inlet nor outlet cannot be built before an inlet was read; an outlet before the last
  position stops the loop with its \<^verbatim>\<open>IndexError\<close> when the descriptors before it were
  processed, and the build fails in any case.
\<close>

lemma build_element_no_inlet: "\<exists>e. build_element sc nl None = Inl e"
proof (cases "build_element sc nl None")
  case (Inl e) then show ?thesis by blast
next
  case (Inr el)
  from build_element_Inr [OF this] show ?thesis by simp
qed

lemma build_loop_first_not_inlet:
  assumes "sc_type sc \<noteq> ''inlet''"
  shows "\<exists>e. build_loop n 0 (sc # rest) [] None = Inl e
           \<and> (sc_type sc = ''outlet'' \<longrightarrow> exc_class e = IndexError)"
proof (cases "sc_type sc = ''outlet''")
  case True
  then show ?thesis using assms
    by (auto simp: last_element_def and_then_def)
next
  case False
  from build_element_no_inlet obtain e where "build_element sc [] None = Inl e" by blast
  with False assms show ?thesis by (simp add: and_then_def)
qed

lemma build_loop_outlet_not_last_fails:
  assumes "sc_type sc = ''outlet''" and "idx + int (length xs) < n - 1"
  shows "\<exists>e. build_loop n idx (xs @ sc # ys) nl ip = Inl e"
  using assms(2)
proof (induction xs arbitrary: idx nl ip)
  case Nil
  with assms(1) show ?case by simp
next
  case (Cons x xs)
  have lt: "idx + 1 + int (length xs) < n - 1" using Cons.prems by simp
  have ne: "idx \<noteq> n - 1" using Cons.prems by simp
  note IH = Cons.IH [OF lt]
  show ?case
  proof (cases "sc_type x = ''inlet''")
    case True
    show ?thesis
    proof (cases "idx \<noteq> 0 \<or> sc_flow x = None")
      case True
      with \<open>sc_type x = ''inlet''\<close> show ?thesis by (auto simp: getkey_def and_then_def)
    next
      case False
      then obtain fl where "sc_flow x = Some fl" by auto
      with False \<open>sc_type x = ''inlet''\<close> IH show ?thesis
        by (simp add: getkey_def and_then_def Let_def)
    qed
  next
    case ni: False
    show ?thesis
    proof (cases "sc_type x = ''outlet''")
      case True
      with ni ne show ?thesis by simp
    next
      case False
      show ?thesis
      proof (cases "build_element x nl ip")
        case (Inl e)
        with ni False show ?thesis by (simp add: and_then_def)
      next
        case (Inr el)
        with ni False IH show ?thesis by (simp add: and_then_def)
      qed
    qed
  qed
qed

lemma build_loop_reaches_outlet:
  assumes "sc_type sc = ''outlet''" and "idx + int (length xs) < n - 1"
    and "build_loop n idx xs nl ip = Inr nl'"
  shows "build_loop n idx (xs @ sc # ys) nl ip = Inl (OutletNotLast (idx + int (length xs)))"
  using assms(2,3)
proof (induction xs arbitrary: idx nl ip)
  case Nil
  with assms(1) show ?case by simp
next
  case (Cons x xs)
  have lt: "idx + 1 + int (length xs) < n - 1" using Cons.prems by simp
  have ne: "idx \<noteq> n - 1" using Cons.prems by simp
  have eq: "idx + 1 + int (length xs) = idx + int (length (x # xs))" by simp
  show ?case
  proof (cases "sc_type x = ''inlet''")
    case True
    with Cons.prems(2) obtain fl :: flow_spec where z: "idx = 0" and fl: "sc_flow x = Some fl"
      and r: "build_loop n (idx + 1) xs
            (nl @ [Inlet (sc_name x) (flow_pressure fl) (flow_mass_flow_rate fl)
                     (flow_density fl) (flow_temperature fl)])
            (Some (Inlet (sc_name x) (flow_pressure fl) (flow_mass_flow_rate fl)
                     (flow_density fl) (flow_temperature fl))) = Inr nl'"
      by (auto simp: and_then_Inr getkey_def Let_def split: if_splits option.splits)
    from Cons.IH [OF lt r] True z fl show ?thesis
      by (simp add: getkey_def and_then_def Let_def)
  next
    case ni: False
    show ?thesis
    proof (cases "sc_type x = ''outlet''")
      case True
      with ni ne Cons.prems(2) show ?thesis by simp
    next
      case False
      with ni Cons.prems(2) obtain el where el: "build_element x nl ip = Inr el"
        and r: "build_loop n (idx + 1) xs (nl @ [el]) ip = Inr nl'"
        by (auto simp: and_then_Inr)
      from Cons.IH [OF lt r] ni False el show ?thesis
        by (simp add: and_then_def add.assoc)
    qed
  qed
qed

text \<open>
  C5 (as amended). When the first descriptor is not of type \<open>inlet\<close>, \<^verbatim>\<open>build_network\<close>
  fails and returns no Network; the error is an \<^verbatim>\<open>IndexError\<close> when that descriptor is an
  outlet. When an \<open>outlet\<close> descriptor stands at a position \<open>i\<close> that is not the last,
  \<^verbatim>\<open>build_network\<close> fails and returns no Network; the error is the structural-order
  \<^verbatim>\<open>IndexError\<close> "Outlet node should be last, currently i" whenever the \<open>i\<close> descriptors
  before it are processed without error (\<open>build_loop\<close> on them, with the length of the
  whole list, returns).
\<close>

theorem structural_order:
  "(\<forall>sc rest. inputs_network inp = sc # rest \<and> sc_type sc \<noteq> ''inlet'' \<longrightarrow>
       (\<exists>e. build_network inp = Inl e
            \<and> (sc_type sc = ''outlet'' \<longrightarrow> exc_class e = IndexError)))
   \<and> (\<forall>i. i + 1 < length (inputs_network inp)
          \<and> sc_type (inputs_network inp ! i) = ''outlet'' \<longrightarrow>
       (\<exists>e. build_network inp = Inl e)
       \<and> ((\<exists>nl. build_loop (int (length (inputs_network inp))) 0
                  (take i (inputs_network inp)) [] None = Inr nl) \<longrightarrow>
            build_network inp = Inl (OutletNotLast (int i))
            \<and> exc_class (OutletNotLast (int i)) = IndexError))"
proof (intro conjI allI impI)
  fix sc rest
  assume a: "inputs_network inp = sc # rest \<and> sc_type sc \<noteq> ''inlet''"
  then have ds: "inputs_network inp = sc # rest" and ni: "sc_type sc \<noteq> ''inlet''" by simp_all
  from build_loop_first_not_inlet [OF ni, of "int (length (inputs_network inp))" rest,
      unfolded ds [symmetric]]
  obtain e where
    e: "build_loop (int (length (inputs_network inp))) 0 (inputs_network inp) [] None = Inl e"
    and c: "sc_type sc = ''outlet'' \<longrightarrow> exc_class e = IndexError" by blast
  have "build_network inp = Inl e"
    by (simp only: build_network_def e and_then_def sum.case)
  with c
  show "\<exists>e. build_network inp = Inl e \<and> (sc_type sc = ''outlet'' \<longrightarrow> exc_class e = IndexError)"
    by blast
next
  fix i
  assume a: "i + 1 < length (inputs_network inp)
          \<and> sc_type (inputs_network inp ! i) = ''outlet''"
  let ?ds = "inputs_network inp"
  from a have split: "?ds = take i ?ds @ ?ds ! i # drop (Suc i) ?ds"
    by (intro id_take_nth_drop) simp
  from a have len: "0 + int (length (take i ?ds)) < int (length ?ds) - 1" by simp
  from a have ty: "sc_type (?ds ! i) = ''outlet''" by simp
  from build_loop_outlet_not_last_fails [OF ty len, of "drop (Suc i) ?ds" "[]" None,
      folded split]
  obtain e where "build_loop (int (length ?ds)) 0 ?ds [] None = Inl e" by blast
  then have "build_network inp = Inl e"
    by (simp only: build_network_def and_then_def sum.case)
  then show "\<exists>e. build_network inp = Inl e" by blast
  {
    assume "\<exists>nl. build_loop (int (length ?ds)) 0 (take i ?ds) [] None = Inr nl"
    then obtain nl where nl: "build_loop (int (length ?ds)) 0 (take i ?ds) [] None = Inr nl"
      by blast
    from a have li: "0 + int (length (take i ?ds)) = int i" by simp
    from build_loop_reaches_outlet [OF ty len nl, of "drop (Suc i) ?ds", folded split,
        unfolded li]
    have "build_loop (int (length ?ds)) 0 ?ds [] None = Inl (OutletNotLast (int i))" .
    then show "build_network inp = Inl (OutletNotLast (int i))"
      by (simp only: build_network_def and_then_def sum.case)
  }
  show "exc_class (OutletNotLast (int i)) = IndexError" by simp
qed

theorem structural_order_witness:
  "build_network \<lparr>inputs_name = ''n'', inputs_network = [ex_inlet, ex_outlet, ex_pipe]\<rparr>
     = Inl (OutletNotLast 1)
   \<and> (\<exists>e. build_network \<lparr>inputs_name = ''n'', inputs_network = [ex_outlet, ex_inlet]\<rparr> = Inl e
          \<and> exc_class e = IndexError)"
proof -
  let ?a = "\<lparr>inputs_name = ''n'', inputs_network = [ex_inlet, ex_outlet, ex_pipe]\<rparr>"
  let ?b = "\<lparr>inputs_name = ''n'', inputs_network = [ex_outlet, ex_inlet]\<rparr>"
  have pre: "\<exists>nl. build_loop (int (length (inputs_network ?a))) 0
                (take 1 (inputs_network ?a)) [] None = Inr nl"
    by (simp add: ex_inlet_def getkey_def and_then_def)
  have hyp: "1 + 1 < length (inputs_network ?a)
          \<and> sc_type (inputs_network ?a ! 1) = ''outlet''"
    by (simp add: ex_outlet_def)
  from structural_order [of ?a] hyp pre
  have 1: "build_network ?a = Inl (OutletNotLast (int 1))" by blast
  have hb: "inputs_network ?b = ex_outlet # [ex_inlet] \<and> sc_type ex_outlet \<noteq> ''inlet''"
    and o: "sc_type ex_outlet = ''outlet''"
    by (simp_all add: ex_outlet_def)
  from structural_order [of ?b] hb o
  have 2: "\<exists>e. build_network ?b = Inl e \<and> exc_class e = IndexError" by blast
  from 1 2 show ?thesis by simp
qed

theorem structural_order_counterexample:
  "sc_type ex_pipe \<noteq> ''inlet''
   \<and> build_network \<lparr>inputs_name = ''n'', inputs_network = [ex_pipe, ex_outlet]\<rparr>
       = Inl (NoAttribute ''NoneType'' ''mass_flow_rate'')
   \<and> exc_class (NoAttribute ''NoneType'' ''mass_flow_rate'') \<noteq> IndexError
   \<and> sc_type ex_outlet = ''outlet''
   \<and> build_network \<lparr>inputs_name = ''n'',
         inputs_network = [ex_inlet, ex_unknown_loss, ex_outlet, ex_pipe]\<rparr>
       = Inl (MissingKey ''no_such_loss'')
   \<and> exc_class (MissingKey ''no_such_loss'') \<noteq> IndexError"
  by (simp add: ex_defs ex_unknown_loss_def build_defs Let_def hydraulic_diameter_circle_def)

subsection \<open>Materialization and the resolution of references\<close>

text \<open>
  A reference token is exactly a string \<open>${geom.key}\<close>; the loop of \<^verbatim>\<open>resolve_refs\<close>
  replaces it by the \<open>geom\<close> value of \<open>key\<close>, raises at the first token whose key is
  absent, and copies every other value. The entries of \<open>loss\<close> are evaluated after all
  entries of \<open>geom\<close>, and they leave the \<open>geom\<close> dict as it is.
\<close>

lemma is_ref_token: "is_ref geom_prefix (geom_prefix @ key @ ''}'')"
  by (simp add: is_ref_def geom_prefix_def)

lemma ref_key_token: "ref_key geom_prefix (geom_prefix @ key @ ''}'') = key"
  by (simp add: ref_key_def geom_prefix_def butlast_append)

lemma is_ref_imp_token:
  assumes "is_ref geom_prefix s"
  shows "s = geom_prefix @ ref_key geom_prefix s @ ''}''"
proof -
  from assms have t: "take (length geom_prefix) s = geom_prefix" and ne: "s \<noteq> []"
    and l: "last s = CHR ''}''" by (simp_all add: is_ref_def)
  from ne l have s: "s = butlast s @ ''}''" by (metis append_butlast_last_id)
  have "length geom_prefix = 7" by (simp add: geom_prefix_def)
  moreover have "last geom_prefix \<noteq> CHR ''}''" by (simp add: geom_prefix_def)
  ultimately have "length s \<noteq> length geom_prefix" using t l
    by (metis take_all order_refl)
  moreover from t have "length geom_prefix \<le> length s"
    by (metis length_take min.cobounded1 min.commute)
  ultimately have "length geom_prefix \<le> length (butlast s)" by simp
  with t have "take (length geom_prefix) (butlast s) = geom_prefix"
    by (simp add: take_butlast) (metis butlast_take length_butlast take_butlast le_neq_implies_less \<open>length s \<noteq> length geom_prefix\<close> \<open>length geom_prefix \<le> length s\<close>)
  then have "butlast s = geom_prefix @ drop (length geom_prefix) (butlast s)"
    by (metis append_take_drop_id)
  with s show ?thesis by (simp add: ref_key_def) (metis append.assoc)
qed

lemma materialize_entry_eq:
  "materialize_entry nm nest_type key spec mat =
     and_then (entry_value nm nest_type key spec mat) (setitem2 mat nest_type key)"
  by (cases spec) (auto simp: entry_value_def and_then_def split: sum.splits)

lemma resolve_items_cong:
  "map_of mat st = map_of mat' st \<Longrightarrow>
     resolve_items st mat kw out = resolve_items st mat' kw out"
  by (induction st mat kw out rule: resolve_items.induct)
     (auto simp: Let_def split: option.splits)

lemma resolve_refs_cong:
  "map_of mat st = map_of mat' st \<Longrightarrow> resolve_refs p mat st = resolve_refs p mat' st"
  using resolve_items_cong [of mat st mat']
  by (simp add: resolve_refs_def split: option.splits)

lemma entry_value_loss_cong:
  "map_of mat ''geom'' = map_of mat' ''geom'' \<Longrightarrow>
     entry_value nm ''loss'' key spec mat = entry_value nm ''loss'' key spec mat'"
  using resolve_refs_cong [of mat "''geom''" mat']
  by (simp add: entry_value_def split: pyval.splits)

lemma setitem2_Inr:
  "setitem2 mat nest key v = Inr mat' \<longleftrightarrow>
     (\<exists>d. map_of mat nest = Some d \<and> mat' = AList.update nest (AList.update key v d) mat)"
  by (auto simp: setitem2_def getitem_def and_then_def split: option.splits)

lemma materialize_entry_Inr:
  "materialize_entry nm nest key spec mat = Inr mat' \<longleftrightarrow>
     (\<exists>v d. entry_value nm nest key spec mat = Inr v \<and> map_of mat nest = Some d
        \<and> mat' = AList.update nest (AList.update key v d) mat)"
  by (auto simp: materialize_entry_eq and_then_Inr setitem2_Inr simp del: materialize_entry.simps)

lemma materialize_items_other:
  "materialize_items nm nest items mat = Inr mat' \<Longrightarrow> other \<noteq> nest \<Longrightarrow>
     map_of mat' other = map_of mat other"
proof (induction items arbitrary: mat)
  case Nil then show ?case by simp
next
  case (Cons a items)
  obtain key spec where a: "a = (key, spec)" by (cases a)
  from Cons.prems(1) a obtain m1 where
    e: "materialize_entry nm nest key spec mat = Inr m1"
    and r: "materialize_items nm nest items m1 = Inr mat'"
    by (auto simp: and_then_Inr simp del: materialize_entry.simps)
  from e Cons.prems(2) have "map_of m1 other = map_of mat other"
    by (auto simp: materialize_entry_Inr update_conv' simp del: materialize_entry.simps)
  with Cons.IH [OF r Cons.prems(2)] show ?case by simp
qed

lemma materialize_items_keeps:
  "materialize_items nm nest items mat = Inr mat' \<Longrightarrow> key \<notin> fst ` set items \<Longrightarrow>
     map_of mat nest = Some d \<Longrightarrow>
     \<exists>d'. map_of mat' nest = Some d' \<and> map_of d' key = map_of d key"
proof (induction items arbitrary: mat d)
  case Nil then show ?case by simp
next
  case (Cons a items)
  obtain k spec where a: "a = (k, spec)" by (cases a)
  from Cons.prems(1) a obtain m1 where
    e: "materialize_entry nm nest k spec mat = Inr m1"
    and r: "materialize_items nm nest items m1 = Inr mat'"
    by (auto simp: and_then_Inr simp del: materialize_entry.simps)
  from e Cons.prems(3) obtain v where
    m1: "map_of m1 nest = Some (AList.update k v d)"
    by (auto simp: materialize_entry_Inr update_conv' simp del: materialize_entry.simps)
  from Cons.prems(2) a have kn: "key \<noteq> k" and ni: "key \<notin> fst ` set items" by auto
  from Cons.IH [OF r ni m1] kn show ?case by (auto simp: update_conv')
qed

lemma materialize_items_value:
  assumes "materialize_items nm ''loss'' items mat = Inr mat'"
    and "distinct (map fst items)" and "(key, spec) \<in> set items"
  shows "\<exists>v d'. entry_value nm ''loss'' key spec mat = Inr v
           \<and> map_of mat' ''loss'' = Some d' \<and> map_of d' key = Some v"
  using assms
proof (induction items arbitrary: mat)
  case Nil then show ?case by simp
next
  case (Cons a items)
  obtain k s where a: "a = (k, s)" by (cases a)
  from Cons.prems(1) a obtain m1 where
    e: "materialize_entry nm ''loss'' k s mat = Inr m1"
    and r: "materialize_items nm ''loss'' items m1 = Inr mat'"
    by (auto simp: and_then_Inr simp del: materialize_entry.simps)
  from e obtain v d where v: "entry_value nm ''loss'' k s mat = Inr v"
    and d: "map_of mat ''loss'' = Some d"
    and m1: "m1 = AList.update ''loss'' (AList.update k v d) mat"
    by (auto simp: materialize_entry_Inr simp del: materialize_entry.simps)
  have g: "map_of m1 ''geom'' = map_of mat ''geom''" by (simp add: m1 update_conv')
  have l1: "map_of m1 ''loss'' = Some (AList.update k v d)" by (simp add: m1 update_conv')
  show ?case
  proof (cases "(key, spec) = (k, s)")
    case True
    from Cons.prems(2) a have "k \<notin> fst ` set items" by simp
    from materialize_items_keeps [OF r this l1] obtain d' where
      "map_of mat' ''loss'' = Some d'" "map_of d' k = Some v" by (auto simp: update_conv')
    with True v show ?thesis by auto
  next
    case False
    with Cons.prems(3) a have "(key, spec) \<in> set items" by auto
    moreover from Cons.prems(2) have "distinct (map fst items)" by simp
    ultimately obtain v' d' where "entry_value nm ''loss'' key spec m1 = Inr v'"
      "map_of mat' ''loss'' = Some d'" "map_of d' key = Some v'"
      using Cons.IH [OF r] by blast
    with entry_value_loss_cong [OF g, of nm key spec] show ?thesis by auto
  qed
qed

lemma geom_prefix_eq: "geom_prefix = ''${geom.''"
  by (simp add: geom_prefix_def)

lemma resolve_param_token:
  "resolve_param g (PStr (geom_prefix @ key @ ''}'')) = map_of g key"
  by (simp add: resolve_param_def is_ref_token ref_key_token)

lemma resolve_param_other:
  "(\<forall>key. v \<noteq> PStr (geom_prefix @ key @ ''}'')) \<Longrightarrow> resolve_param g v = Some v"
  using is_ref_imp_token by (auto simp: resolve_param_def split: pyval.splits)

lemma resolve_param_None:
  "resolve_param g v = None \<Longrightarrow>
     \<exists>key. v = PStr (geom_prefix @ key @ ''}'') \<and> map_of g key = None"
  using is_ref_imp_token
  by (auto simp: resolve_param_def split: pyval.splits if_splits)

lemma resolve_items_step_Some:
  assumes "map_of mat ''geom'' = Some g" and "resolve_param g v = Some x"
  shows "resolve_items ''geom'' mat ((k, v) # rest) out
           = resolve_items ''geom'' mat rest (AList.update k x out)"
  using assms
  by (cases v) (auto simp: resolve_param_def Let_def geom_prefix_def split: if_splits)

lemma resolve_items_step_None:
  assumes "map_of mat ''geom'' = Some g" and "resolve_param g (PStr s) = None"
  shows "resolve_items ''geom'' mat ((k, PStr s) # rest) out = Inl (UnknownReference ''geom'' s)"
  using assms
  by (auto simp: resolve_param_def Let_def geom_prefix_def split: if_splits)

lemma resolve_items_Inl:
  assumes "map_of mat ''geom'' = Some g"
  shows "resolve_items ''geom'' mat kw out = Inl e \<Longrightarrow>
     \<exists>k key. (k, PStr (geom_prefix @ key @ ''}'')) \<in> set kw \<and> map_of g key = None
        \<and> e = UnknownReference ''geom'' (geom_prefix @ key @ ''}'')"
proof (induction kw arbitrary: out)
  case Nil then show ?case by simp
next
  case (Cons a kw)
  obtain k v where a: "a = (k, v)" by (cases a)
  show ?case
  proof (cases "resolve_param g v")
    case None
    from resolve_param_None [OF None] obtain key where
      v: "v = PStr (geom_prefix @ key @ ''}'')" and n: "map_of g key = None" by blast
    from Cons.prems have "e = UnknownReference ''geom'' (geom_prefix @ key @ ''}'')"
      using resolve_items_step_None [OF assms None [unfolded v]] by (simp add: a v)
    with v n a show ?thesis by auto
  next
    case (Some x)
    from Cons.prems have "resolve_items ''geom'' mat kw (AList.update k x out) = Inl e"
      unfolding a resolve_items_step_Some [OF assms Some] .
    from Cons.IH [OF this] show ?thesis by auto
  qed
qed

lemma fst_set_update: "fst ` set (AList.update k v al) = insert k (fst ` set al)"
proof -
  have "set (map fst (AList.update k v al)) = insert k (set (map fst al))"
    by (simp add: update_keys) auto
  then show ?thesis by simp
qed

lemma resolve_items_Inr:
  assumes "map_of mat ''geom'' = Some g"
  shows "resolve_items ''geom'' mat kw out = Inr out' \<Longrightarrow> distinct (map fst kw) \<Longrightarrow>
     (\<forall>(k, v) \<in> set kw. resolve_param g v \<noteq> None \<and> map_of out' k = resolve_param g v)
     \<and> (\<forall>k. k \<notin> fst ` set kw \<longrightarrow> map_of out' k = map_of out k)
     \<and> fst ` set out' = fst ` set out \<union> fst ` set kw"
proof (induction kw arbitrary: out)
  case Nil then show ?case by simp
next
  case (Cons a kw)
  obtain k v where a: "a = (k, v)" by (cases a)
  have "resolve_param g v \<noteq> None"
  proof
    assume n: "resolve_param g v = None"
    from resolve_param_None [OF n] obtain s where v: "v = PStr s" by blast
    from Cons.prems(1) resolve_items_step_None [OF assms n [unfolded v]] show False
      by (simp add: a v)
  qed
  then obtain x where x: "resolve_param g v = Some x" by auto
  from Cons.prems(1) have r: "resolve_items ''geom'' mat kw (AList.update k x out) = Inr out'"
    unfolding a resolve_items_step_Some [OF assms x] .
  from Cons.prems(2) a have d: "distinct (map fst kw)" and kn: "k \<notin> fst ` set kw" by auto
  from Cons.IH [OF r d] have
    1: "\<forall>(k, v) \<in> set kw. resolve_param g v \<noteq> None \<and> map_of out' k = resolve_param g v"
    and 2: "\<forall>k'. k' \<notin> fst ` set kw \<longrightarrow> map_of out' k' = map_of (AList.update k x out) k'"
    and 3: "fst ` set out' = fst ` set (AList.update k x out) \<union> fst ` set kw"
    by blast+
  from 2 kn have "map_of out' k = Some x" by (simp add: update_conv')
  with 1 x a have A: "\<forall>(k, v) \<in> set (a # kw).
      resolve_param g v \<noteq> None \<and> map_of out' k = resolve_param g v" by simp
  from 2 a have B: "\<forall>k'. k' \<notin> fst ` set (a # kw) \<longrightarrow> map_of out' k' = map_of out k'"
    by (simp add: update_conv')
  from 3 a have C: "fst ` set out' = fst ` set out \<union> fst ` set (a # kw)"
    by (auto simp: fst_set_update)
  from A B C show ?case by blast
qed

lemma resolve_items_Inr_lookup:
  assumes "map_of mat ''geom'' = Some g" and "resolve_items ''geom'' mat kw out = Inr out'"
    and "distinct (map fst kw)" and "(k, v) \<in> set kw"
  shows "resolve_param g v \<noteq> None \<and> map_of out' k = resolve_param g v"
proof -
  note R = resolve_items_Inr [OF assms(1-3), THEN conjunct1]
  from bspec [OF R assms(4)] show ?thesis by simp
qed

lemma resolve_items_Inr_keys:
  assumes "map_of mat ''geom'' = Some g" and "resolve_items ''geom'' mat kw out = Inr out'"
    and "distinct (map fst kw)"
  shows "fst ` set out' = fst ` set out \<union> fst ` set kw"
  by (rule resolve_items_Inr [OF assms, THEN conjunct2, THEN conjunct2])

lemma resolve_items_succeeds:
  assumes "map_of mat ''geom'' = Some g"
  shows "\<forall>(k, v) \<in> set kw. resolve_param g v \<noteq> None \<Longrightarrow>
     \<exists>out'. resolve_items ''geom'' mat kw out = Inr out'"
proof (induction kw arbitrary: out)
  case Nil then show ?case by simp
next
  case (Cons a kw)
  obtain k v where a: "a = (k, v)" by (cases a)
  from Cons.prems a obtain x where x: "resolve_param g v = Some x" by auto
  from Cons.prems have "\<forall>(k, v) \<in> set kw. resolve_param g v \<noteq> None" by simp
  from Cons.IH [OF this, of "AList.update k x out"] show ?case
    unfolding a resolve_items_step_Some [OF assms x] .
qed

lemma resolve_refs_Some: "resolve_refs (Some kw) mat st = resolve_items st mat kw []"
  by (simp add: resolve_refs_def)

lemma materialize_items_defined:
  "materialize_items nm nest items mat = Inr mat' \<Longrightarrow> map_of mat nest = Some d \<Longrightarrow>
     \<exists>d'. map_of mat' nest = Some d'"
proof (induction items arbitrary: mat d)
  case Nil then show ?case by simp
next
  case (Cons a items)
  obtain k spec where a: "a = (k, spec)" by (cases a)
  from Cons.prems(1) a obtain m1 where
    e: "materialize_entry nm nest k spec mat = Inr m1"
    and r: "materialize_items nm nest items m1 = Inr mat'"
    by (auto simp: and_then_Inr simp del: materialize_entry.simps)
  from e Cons.prems(2) obtain v where
    m1: "map_of m1 nest = Some (AList.update k v d)"
    by (auto simp: materialize_entry_Inr update_conv' simp del: materialize_entry.simps)
  from Cons.IH [OF r m1] show ?case .
qed

lemma materialize_Inr:
  assumes "materialize sc = Inr mat'"
  shows "\<exists>g l gm geom. sc_geom sc = Some g \<and> sc_loss sc = Some l
       \<and> materialize_items (sc_name sc) ''geom'' g [(''geom'', []), (''loss'', [])] = Inr gm
       \<and> map_of gm ''geom'' = Some geom \<and> map_of gm ''loss'' = Some []
       \<and> materialize_items (sc_name sc) ''loss'' l gm = Inr mat'
       \<and> map_of mat' ''geom'' = Some geom"
proof -
  from assms obtain g l gm where g: "sc_geom sc = Some g" and l: "sc_loss sc = Some l"
    and gm: "materialize_items (sc_name sc) ''geom'' g [(''geom'', []), (''loss'', [])] = Inr gm"
    and m: "materialize_items (sc_name sc) ''loss'' l gm = Inr mat'"
    by (auto simp: materialize_def and_then_Inr getkey_def Let_def split: option.splits)
  from materialize_items_other [OF gm, of "''loss''"] have 1: "map_of gm ''loss'' = Some []"
    by simp
  have "map_of [(''geom'', []), (''loss'', [])] ''geom'' = Some ([] :: pydict)" by simp
  from materialize_items_defined [OF gm this] obtain geom where
    2: "map_of gm ''geom'' = Some geom" by blast
  from materialize_items_other [OF m, of "''geom''"] 2 have 3: "map_of mat' ''geom'' = Some geom"
    by simp
  from g l gm m 1 2 3 show ?thesis by blast
qed

lemma resolve_refs_resolved:
  assumes g: "map_of mat ''geom'' = Some g" and d: "distinct (map fst kw)"
    and r: "resolve_refs (Some kw) mat ''geom'' = Inr out"
  shows "fst ` set out = fst ` set kw"
    and "(k, PStr (''${geom.'' @ key @ ''}'')) \<in> set kw \<Longrightarrow>
           \<exists>x. map_of g key = Some x \<and> map_of out k = Some x"
    and "(k, v) \<in> set kw \<Longrightarrow> \<forall>key. v \<noteq> PStr (''${geom.'' @ key @ ''}'') \<Longrightarrow>
           map_of out k = Some v"
proof -
  from r have r': "resolve_items ''geom'' mat kw [] = Inr out" by (simp only: resolve_refs_Some)
  note L = resolve_items_Inr_lookup [OF g r' d]
  from resolve_items_Inr_keys [OF g r' d] show "fst ` set out = fst ` set kw" by simp
  {
    assume m: "(k, PStr (''${geom.'' @ key @ ''}'')) \<in> set kw"
    have t: "resolve_param g (PStr (''${geom.'' @ key @ ''}'')) = map_of g key"
      using resolve_param_token [of g key] by (simp only: geom_prefix_eq)
    from L [OF m] have "resolve_param g (PStr (''${geom.'' @ key @ ''}'')) \<noteq> None
      \<and> map_of out k = resolve_param g (PStr (''${geom.'' @ key @ ''}''))" .
    then show "\<exists>x. map_of g key = Some x \<and> map_of out k = Some x" unfolding t by auto
  }
  {
    assume kv: "(k, v) \<in> set kw" and o: "\<forall>key. v \<noteq> PStr (''${geom.'' @ key @ ''}'')"
    from o have "resolve_param g v = Some v"
      by (rule resolve_param_other [of v g, unfolded geom_prefix_eq])
    moreover from L [OF kv] have "map_of out k = resolve_param g v" by simp
    ultimately show "map_of out k = Some v" by simp
  }
qed

lemma resolve_refs_unresolved:
  assumes g: "map_of mat ''geom'' = Some g" and d: "distinct (map fst kw)"
    and m: "(k, PStr (''${geom.'' @ key @ ''}'')) \<in> set kw" and n: "map_of g key = None"
  shows "\<exists>k key. (k, PStr (''${geom.'' @ key @ ''}'')) \<in> set kw \<and> map_of g key = None
               \<and> resolve_refs (Some kw) mat ''geom''
                    = Inl (UnknownReference ''geom'' (''${geom.'' @ key @ ''}''))"
proof -
  have t: "resolve_param g (PStr (''${geom.'' @ key @ ''}'')) = map_of g key"
    using resolve_param_token [of g key] by (simp only: geom_prefix_eq)
  have "\<exists>e. resolve_items ''geom'' mat kw [] = Inl e"
  proof (cases "resolve_items ''geom'' mat kw []")
    case (Inl e) then show ?thesis by blast
  next
    case (Inr out)
    from resolve_items_Inr_lookup [OF g Inr d m]
    have "resolve_param g (PStr (''${geom.'' @ key @ ''}'')) \<noteq> None" by simp
    with n t show ?thesis by simp
  qed
  then obtain e where e: "resolve_items ''geom'' mat kw [] = Inl e" by blast
  from resolve_items_Inl [OF g e] obtain k' key' where
    "(k', PStr (geom_prefix @ key' @ ''}'')) \<in> set kw" "map_of g key' = None"
    "e = UnknownReference ''geom'' (geom_prefix @ key' @ ''}'')" by blast
  with e show ?thesis unfolding resolve_refs_Some geom_prefix_eq by blast
qed

lemma resolve_refs_succeeds:
  assumes g: "map_of mat ''geom'' = Some g"
    and b: "\<forall>k key. (k, PStr (''${geom.'' @ key @ ''}'')) \<in> set kw \<longrightarrow> map_of g key \<noteq> None"
  shows "\<exists>out. resolve_refs (Some kw) mat ''geom'' = Inr out"
proof -
  have "resolve_param g v \<noteq> None" if kv: "(k, v) \<in> set kw" for k v
  proof
    assume n: "resolve_param g v = None"
    from resolve_param_None [OF n] obtain key where
      "v = PStr (''${geom.'' @ key @ ''}'')" "map_of g key = None"
      unfolding geom_prefix_eq by blast
    with kv b show False by blast
  qed
  then have "\<forall>(k, v) \<in> set kw. resolve_param g v \<noteq> None" by auto
  from resolve_items_succeeds [OF g this, of "[]"]
  show ?thesis unfolding resolve_refs_Some .
qed

lemma materialize_loss_values:
  assumes lm: "materialize_items nm ''loss'' l gm = Inr mat'"
    and d: "distinct (map fst l)"
    and k: "(key, PCall fn params) \<in> set l" and nf: "key \<noteq> ''flow_direction''"
  shows "\<exists>f args v lm. map_of LOSS_REGISTRY fn = Some f
                \<and> resolve_refs params gm ''geom'' = Inr args
                \<and> call f (Some args) = Inr v
                \<and> map_of mat' ''loss'' = Some lm \<and> map_of lm key = Some v"
proof -
  from materialize_items_value [OF lm d k] obtain v d' where
    v: "entry_value nm ''loss'' key (PCall fn params) gm = Inr v"
    and d': "map_of mat' ''loss'' = Some d'" and kv: "map_of d' key = Some v" by blast
  from v nf obtain args f where "resolve_refs params gm ''geom'' = Inr args"
    "map_of LOSS_REGISTRY fn = Some f" "call f (Some args) = Inr v"
    by (auto simp: entry_value_def and_then_Inr getitem_def split: option.splits)
  with d' kv show ?thesis by blast
qed

text \<open>
  C7. For a \<open>geom\<close> dict \<open>g\<close> and parameters \<open>kw\<close> (a dict: its keys are distinct),
  \<^verbatim>\<open>resolve_refs\<close> returns, when it returns, a dict with the keys of \<open>kw\<close> in which each
  parameter written \<open>${geom.key}\<close> has the value of \<open>key\<close> in \<open>g\<close> and every other
  parameter its own value; it raises the \<^verbatim>\<open>KeyError\<close> naming the token when a token's key
  is absent from \<open>g\<close>, and returns otherwise. When a descriptor is materialized, all of
  \<open>geom\<close> is evaluated first, from the empty dicts and leaving \<open>loss\<close> empty; \<open>loss\<close> is
  evaluated from that state and leaves \<open>geom\<close> unchanged; and every \<open>loss\<close> entry that
  calls a function holds the result of the registry function on its parameters resolved
  against that complete \<open>geom\<close> dict.
\<close>

theorem reference_resolution:
  "(\<forall>g. map_of mat ''geom'' = Some g \<and> distinct (map fst kw) \<longrightarrow>
      (\<forall>out. resolve_refs (Some kw) mat ''geom'' = Inr out \<longrightarrow>
         fst ` set out = fst ` set kw
         \<and> (\<forall>k key. (k, PStr (''${geom.'' @ key @ ''}'')) \<in> set kw \<longrightarrow>
               (\<exists>x. map_of g key = Some x \<and> map_of out k = Some x))
         \<and> (\<forall>k v. (k, v) \<in> set kw \<and> (\<forall>key. v \<noteq> PStr (''${geom.'' @ key @ ''}'')) \<longrightarrow>
               map_of out k = Some v))
      \<and> ((\<exists>k key. (k, PStr (''${geom.'' @ key @ ''}'')) \<in> set kw \<and> map_of g key = None) \<longrightarrow>
            (\<exists>k key. (k, PStr (''${geom.'' @ key @ ''}'')) \<in> set kw \<and> map_of g key = None
               \<and> resolve_refs (Some kw) mat ''geom''
                    = Inl (UnknownReference ''geom'' (''${geom.'' @ key @ ''}''))))
      \<and> ((\<forall>k key. (k, PStr (''${geom.'' @ key @ ''}'')) \<in> set kw \<longrightarrow> map_of g key \<noteq> None) \<longrightarrow>
            (\<exists>out. resolve_refs (Some kw) mat ''geom'' = Inr out)))
   \<and> (\<forall>r s. exc_class (UnknownReference r s) = KeyError)
   \<and> (\<forall>mat'. materialize sc = Inr mat' \<longrightarrow>
        (\<exists>g l gm geom. sc_geom sc = Some g \<and> sc_loss sc = Some l
           \<and> materialize_items (sc_name sc) ''geom'' g [(''geom'', []), (''loss'', [])] = Inr gm
           \<and> map_of gm ''geom'' = Some geom \<and> map_of gm ''loss'' = Some []
           \<and> materialize_items (sc_name sc) ''loss'' l gm = Inr mat'
           \<and> map_of mat' ''geom'' = Some geom
           \<and> (distinct (map fst l) \<longrightarrow>
                (\<forall>key fn params. (key, PCall fn params) \<in> set l \<and> key \<noteq> ''flow_direction'' \<longrightarrow>
                   (\<exists>f args v lm. map_of LOSS_REGISTRY fn = Some f
                      \<and> resolve_refs params gm ''geom'' = Inr args
                      \<and> call f (Some args) = Inr v
                      \<and> map_of mat' ''loss'' = Some lm \<and> map_of lm key = Some v)))))"
proof (intro conjI allI impI; (elim conjE exE)?)
  fix g out
  assume g: "map_of mat ''geom'' = Some g" and d: "distinct (map fst kw)"
    and r: "resolve_refs (Some kw) mat ''geom'' = Inr out"
  show "fst ` set out = fst ` set kw" by (rule resolve_refs_resolved(1) [OF g d r])
next
  fix g out k key
  assume g: "map_of mat ''geom'' = Some g" and d: "distinct (map fst kw)"
    and r: "resolve_refs (Some kw) mat ''geom'' = Inr out"
    and m: "(k, PStr (''${geom.'' @ key @ ''}'')) \<in> set kw"
  show "\<exists>x. map_of g key = Some x \<and> map_of out k = Some x"
    by (rule resolve_refs_resolved(2) [OF g d r m])
next
  fix g out k v
  assume g: "map_of mat ''geom'' = Some g" and d: "distinct (map fst kw)"
    and r: "resolve_refs (Some kw) mat ''geom'' = Inr out"
    and m: "(k, v) \<in> set kw" and o: "\<forall>key. v \<noteq> PStr (''${geom.'' @ key @ ''}'')"
  show "map_of out k = Some v" by (rule resolve_refs_resolved(3) [OF g d r m o])
next
  fix g k key
  assume g: "map_of mat ''geom'' = Some g" and d: "distinct (map fst kw)"
    and m: "(k, PStr (''${geom.'' @ key @ ''}'')) \<in> set kw" and n: "map_of g key = None"
  show "\<exists>k key. (k, PStr (''${geom.'' @ key @ ''}'')) \<in> set kw \<and> map_of g key = None
               \<and> resolve_refs (Some kw) mat ''geom''
                    = Inl (UnknownReference ''geom'' (''${geom.'' @ key @ ''}''))"
    by (rule resolve_refs_unresolved [OF g d m n])
next
  fix g
  assume g: "map_of mat ''geom'' = Some g"
    and b: "\<forall>k key. (k, PStr (''${geom.'' @ key @ ''}'')) \<in> set kw \<longrightarrow> map_of g key \<noteq> None"
  show "\<exists>out. resolve_refs (Some kw) mat ''geom'' = Inr out"
    by (rule resolve_refs_succeeds [OF g b])
next
  fix r s show "exc_class (UnknownReference r s) = KeyError" by simp
next
  fix mat' assume m: "materialize sc = Inr mat'"
  from materialize_Inr [OF m] obtain g l gm geom where g: "sc_geom sc = Some g"
    and l: "sc_loss sc = Some l"
    and gm: "materialize_items (sc_name sc) ''geom'' g [(''geom'', []), (''loss'', [])] = Inr gm"
    and gg: "map_of gm ''geom'' = Some geom" and gl: "map_of gm ''loss'' = Some []"
    and lm: "materialize_items (sc_name sc) ''loss'' l gm = Inr mat'"
    and mg: "map_of mat' ''geom'' = Some geom" by blast
  have v: "distinct (map fst l) \<longrightarrow>
          (\<forall>key fn params. (key, PCall fn params) \<in> set l \<and> key \<noteq> ''flow_direction'' \<longrightarrow>
             (\<exists>f args v lm. map_of LOSS_REGISTRY fn = Some f
                \<and> resolve_refs params gm ''geom'' = Inr args
                \<and> call f (Some args) = Inr v
                \<and> map_of mat' ''loss'' = Some lm \<and> map_of lm key = Some v))"
    using materialize_loss_values [OF lm] by blast
  show "\<exists>g l gm geom. sc_geom sc = Some g \<and> sc_loss sc = Some l
           \<and> materialize_items (sc_name sc) ''geom'' g [(''geom'', []), (''loss'', [])] = Inr gm
           \<and> map_of gm ''geom'' = Some geom \<and> map_of gm ''loss'' = Some []
           \<and> materialize_items (sc_name sc) ''loss'' l gm = Inr mat'
           \<and> map_of mat' ''geom'' = Some geom
           \<and> (distinct (map fst l) \<longrightarrow>
                (\<forall>key fn params. (key, PCall fn params) \<in> set l \<and> key \<noteq> ''flow_direction'' \<longrightarrow>
                   (\<exists>f args v lm. map_of LOSS_REGISTRY fn = Some f
                      \<and> resolve_refs params gm ''geom'' = Inr args
                      \<and> call f (Some args) = Inr v
                      \<and> map_of mat' ''loss'' = Some lm \<and> map_of lm key = Some v)))"
    by (intro exI conjI) (rule g l gm gg gl lm mg v)+
qed

lemma materialize_ex_junction:
  "materialize ex_junction
     = Inr [(''geom'', [(''inlet_area'', PNum 1), (''outlet_area'', PNum 2)]),
            (''loss'', [(''form'', PNum (1 / 4))])]"
  by (simp add: ex_junction_def build_defs sudden_expansion_def power2_eq_square)

theorem reference_resolution_witness:
  "(\<exists>out. resolve_refs (Some [(''inlet_area'', PStr ''${geom.inlet_area}''), (''n'', PNum 3)])
             [(''geom'', [(''inlet_area'', PNum 1)]), (''loss'', [])] ''geom'' = Inr out
          \<and> map_of out ''inlet_area'' = Some (PNum 1) \<and> map_of out ''n'' = Some (PNum 3))
   \<and> resolve_refs (Some [(''inlet_area'', PStr ''${geom.missing}'')])
        [(''geom'', [(''inlet_area'', PNum 1)]), (''loss'', [])] ''geom''
        = Inl (UnknownReference ''geom'' ''${geom.missing}'')
   \<and> (\<exists>mat' gm f args v lm. materialize ex_junction = Inr mat'
          \<and> map_of mat' ''geom'' = map_of gm ''geom''
          \<and> map_of LOSS_REGISTRY ''sudden_expansion'' = Some f
          \<and> resolve_refs (Some [(''inlet_area'', PStr ''${geom.inlet_area}''),
                                 (''outlet_area'', PStr ''${geom.outlet_area}'')]) gm ''geom''
               = Inr args
          \<and> call f (Some args) = Inr v
          \<and> map_of mat' ''loss'' = Some lm \<and> map_of lm ''form'' = Some v
          \<and> v = PNum (1 / 4))"
proof -
  let ?mat = "[(''geom'', [(''inlet_area'', PNum 1)]), (''loss'', [])] :: materialized"
  let ?g = "[(''inlet_area'', PNum 1)] :: pydict"
  let ?kw = "[(''inlet_area'', PStr ''${geom.inlet_area}''), (''n'', PNum 3)]"
  let ?kw2 = "[(''inlet_area'', PStr ''${geom.missing}'')]"
  have g: "map_of ?mat ''geom'' = Some ?g \<and> distinct (map fst ?kw)"
    and g2: "map_of ?mat ''geom'' = Some ?g \<and> distinct (map fst ?kw2)" by simp_all
  note A = reference_resolution [of ?mat ?kw ex_junction, THEN conjunct1, rule_format, OF g]
  note B = reference_resolution [of ?mat ?kw2 ex_junction, THEN conjunct1, rule_format, OF g2]
  note C = reference_resolution [of ?mat ?kw ex_junction, THEN conjunct2, THEN conjunct2,
      rule_format, OF materialize_ex_junction]
  \<comment> \<open>a resolvable reference and a plain value\<close>
  have "\<forall>k key. (k, PStr (''${geom.'' @ key @ ''}'')) \<in> set ?kw \<longrightarrow> map_of ?g key \<noteq> None"
    by auto
  with A obtain out where out: "resolve_refs (Some ?kw) ?mat ''geom'' = Inr out" by blast
  have m1: "(''inlet_area'', PStr (''${geom.'' @ ''inlet_area'' @ ''}'')) \<in> set ?kw" by simp
  have m2: "(''n'', PNum 3) \<in> set ?kw \<and> (\<forall>key. PNum 3 \<noteq> PStr (''${geom.'' @ key @ ''}''))"
    by simp
  from A [THEN conjunct1, rule_format, OF out, THEN conjunct2, THEN conjunct1, rule_format, OF m1]
  have o1: "map_of out ''inlet_area'' = Some (PNum 1)" by auto
  from A [THEN conjunct1, rule_format, OF out, THEN conjunct2, THEN conjunct2, rule_format, OF m2]
  have o2: "map_of out ''n'' = Some (PNum 3)" .
  \<comment> \<open>a reference to an absent key\<close>
  have "\<exists>k key. (k, PStr (''${geom.'' @ key @ ''}'')) \<in> set ?kw2 \<and> map_of ?g key = None"
    by (intro exI [of _ "''inlet_area''"] exI [of _ "''missing''"]) simp
  from B [THEN conjunct2, THEN conjunct1, rule_format, OF this]
  obtain k key where "(k, PStr (''${geom.'' @ key @ ''}'')) \<in> set ?kw2"
    and "resolve_refs (Some ?kw2) ?mat ''geom''
           = Inl (UnknownReference ''geom'' (''${geom.'' @ key @ ''}''))" by blast
  then have u: "resolve_refs (Some ?kw2) ?mat ''geom''
      = Inl (UnknownReference ''geom'' ''${geom.missing}'')" by auto
  \<comment> \<open>the loss entry of the junction\<close>
  from C obtain g l gm geom where sg: "sc_geom ex_junction = Some g"
    and sl: "sc_loss ex_junction = Some l"
    and mg: "map_of gm ''geom'' = Some geom"
    and mm: "map_of (projr (materialize ex_junction)) ''geom'' = Some geom"
    and D: "distinct (map fst l) \<longrightarrow>
         (\<forall>key fn params. (key, PCall fn params) \<in> set l \<and> key \<noteq> ''flow_direction'' \<longrightarrow>
            (\<exists>f args v lm. map_of LOSS_REGISTRY fn = Some f
               \<and> resolve_refs params gm ''geom'' = Inr args
               \<and> call f (Some args) = Inr v
               \<and> map_of (projr (materialize ex_junction)) ''loss'' = Some lm
               \<and> map_of lm key = Some v))"
    unfolding materialize_ex_junction sum.sel by blast
  from sl have l: "l = [(''form'', PCall ''sudden_expansion''
                         (Some [(''inlet_area'', PStr ''${geom.inlet_area}''),
                                (''outlet_area'', PStr ''${geom.outlet_area}'')]))]"
    by (simp add: ex_junction_def)
  from D l obtain f args v lm where f: "map_of LOSS_REGISTRY ''sudden_expansion'' = Some f"
    and a: "resolve_refs (Some [(''inlet_area'', PStr ''${geom.inlet_area}''),
                                 (''outlet_area'', PStr ''${geom.outlet_area}'')]) gm ''geom''
               = Inr args"
    and c: "call f (Some args) = Inr v"
    and lm: "map_of (projr (materialize ex_junction)) ''loss'' = Some lm"
    and v: "map_of lm ''form'' = Some v"
    by auto
  from lm v have "v = PNum (1 / 4)" unfolding materialize_ex_junction by auto
  with f a c lm v mg mm materialize_ex_junction
  have "\<exists>mat' gm f args v lm. materialize ex_junction = Inr mat'
          \<and> map_of mat' ''geom'' = map_of gm ''geom''
          \<and> map_of LOSS_REGISTRY ''sudden_expansion'' = Some f
          \<and> resolve_refs (Some [(''inlet_area'', PStr ''${geom.inlet_area}''),
                                 (''outlet_area'', PStr ''${geom.outlet_area}'')]) gm ''geom''
               = Inr args
          \<and> call f (Some args) = Inr v
          \<and> map_of mat' ''loss'' = Some lm \<and> map_of lm ''form'' = Some v
          \<and> v = PNum (1 / 4)"
    by (intro exI [of _ "projr (materialize ex_junction)"] exI [of _ gm] exI [of _ f]
        exI [of _ args] exI [of _ v] exI [of _ lm]) simp
  with out o1 o2 u show ?thesis by blast
qed

end
